theory Spec2Isabelle
  imports Complex_Main
begin

section \<open>Values shared by the whole editor\<close>

text \<open>
  The editor (\<^verbatim>\<open>src/main.py\<close>) is a PyQt/VTK program. Its coordinates are Python
  floats; they are modelled here as real numbers, so every arithmetic fact below is a
  fact about the exact value of the expression the source writes. Pixel coordinates
  (\<^verbatim>\<open>QPoint\<close>) and the renderer size are integers.
\<close>

type_synonym vec3 = "real \<times> real \<times> real"

type_synonym QPoint = "int \<times> int"

datatype py_error = ZeroDivisionError | KeyError | ValueError

text \<open>The two Python operations of the registry that can raise: \<^verbatim>\<open>d[k]\<close> raises
  \<^verbatim>\<open>KeyError\<close> on a missing key, \<^verbatim>\<open>xs.remove(x)\<close> raises \<^verbatim>\<open>ValueError\<close> when
  \<^verbatim>\<open>x\<close> is not in the list and takes out its first occurrence otherwise.\<close>

definition dict_getitem :: "('k \<rightharpoonup> 'v) \<Rightarrow> 'k \<Rightarrow> py_error + 'v" where
  "dict_getitem d k = (case d k of None \<Rightarrow> Inl KeyError | Some v \<Rightarrow> Inr v)"

definition list_remove :: "'a list \<Rightarrow> 'a \<Rightarrow> py_error + 'a list" where
  "list_remove xs x = (if x \<in> set xs then Inr (remove1 x xs) else Inl ValueError)"

text \<open>Python's \<^verbatim>\<open>max(a, b)\<close> and \<^verbatim>\<open>min(a, b)\<close>: the first argument is kept
  unless the second is strictly better.\<close>

definition py_max :: "real \<Rightarrow> real \<Rightarrow> real" where
  "py_max a b = (if b > a then b else a)"

definition py_min :: "real \<Rightarrow> real \<Rightarrow> real" where
  "py_min a b = (if b < a then b else a)"

text \<open>Python's \<^verbatim>\<open>a % b\<close> on floats with a positive \<^verbatim>\<open>b\<close>: the result has
  the sign of \<^verbatim>\<open>b\<close>.\<close>

definition py_fmod :: "real \<Rightarrow> real \<Rightarrow> real" where
  "py_fmod a b = a - b * of_int \<lfloor>a / b\<rfloor>"

text \<open>
  A Python sequence of floats is either a tuple or a list. \<^verbatim>\<open>==\<close> between a
  tuple and a list is always false (and \<^verbatim>\<open>!=\<close> always true), whatever they
  hold.
\<close>

datatype py_seq = PyTuple "real list" | PyList "real list"

fun py_eq :: "py_seq \<Rightarrow> py_seq \<Rightarrow> bool" where
  "py_eq (PyTuple xs) (PyTuple ys) = (xs = ys)"
| "py_eq (PyList xs) (PyList ys) = (xs = ys)"
| "py_eq (PyTuple xs) (PyList ys) = False"
| "py_eq (PyList xs) (PyTuple ys) = False"

definition py_ne :: "py_seq \<Rightarrow> py_seq \<Rightarrow> bool" where
  "py_ne a b = (\<not> py_eq a b)"


definition dot3 :: "vec3 \<Rightarrow> vec3 \<Rightarrow> real" where
  "dot3 a b = (case a of (a0, a1, a2) \<Rightarrow> case b of (b0, b1, b2) \<Rightarrow>
     a0 * b0 + a1 * b1 + a2 * b2)"

section \<open>Formatting a float with two decimals\<close>

text \<open>
  \<^verbatim>\<open>f"{distance:.2f}"\<close> prints the decimal numeral with two fractional digits
  that is nearest to the value, ties going to the even neighbour, with a leading minus
  sign for a negative value.
\<close>

definition round_half_even :: "real \<Rightarrow> int" where
  "round_half_even x =
     (let f = \<lfloor>x\<rfloor>; d = x - of_int f
      in if d < 1 / 2 then f
         else if 1 / 2 < d then f + 1
         else if even f then f else f + 1)"

definition digit_char :: "nat \<Rightarrow> char" where
  "digit_char n = ''0123456789'' ! (n mod 10)"

fun str_nat :: "nat \<Rightarrow> string" where
  "str_nat n = (if n < 10 then [digit_char n] else str_nat (n div 10) @ [digit_char n])"

declare str_nat.simps [simp del]

definition format_2f :: "real \<Rightarrow> string" where
  "format_2f x =
     (let q = nat (round_half_even (\<bar>x\<bar> * 100))
      in (if x < 0 then ''-'' else '''') @ str_nat (q div 100) @ ''.''
           @ [digit_char (q div 10), digit_char q])"

text \<open>
  Reading such a label back: an optional minus sign, at least one digit, a point and
  exactly two digits denote the number \<open>\<plusminus>(n + f / 100)\<close>; anything else denotes
  nothing.
\<close>

definition digit_of :: "char \<Rightarrow> nat option" where
  "digit_of c = (let n = (of_char c :: nat) in if 48 \<le> n \<and> n \<le> 57 then Some (n - 48) else None)"

fun read_digits :: "nat \<Rightarrow> string \<Rightarrow> nat option" where
  "read_digits acc [] = Some acc"
| "read_digits acc (c # cs) =
     (case digit_of c of None \<Rightarrow> None | Some d \<Rightarrow> read_digits (10 * acc + d) cs)"

definition read_nat :: "string \<Rightarrow> nat option" where
  "read_nat str = (if str = [] then None else read_digits 0 str)"

definition read_unsigned_2f :: "string \<Rightarrow> real option" where
  "read_unsigned_2f str =
     (let n = length str
      in if n < 4 \<or> str ! (n - 3) \<noteq> CHR ''.'' then None
         else case (read_nat (take (n - 3) str), read_nat (drop (n - 2) str)) of
                (Some whole, Some hundredths) \<Rightarrow> Some (of_nat whole + of_nat hundredths / 100)
              | _ \<Rightarrow> None)"

definition decimal_value :: "string \<Rightarrow> real option" where
  "decimal_value str =
     (case str of
        [] \<Rightarrow> None
      | c # cs \<Rightarrow> if c = CHR ''-'' then map_option uminus (read_unsigned_2f cs)
                  else read_unsigned_2f str)"

section \<open>The measurement tool\<close>

text \<open>
  What the measurement tool sees of the renderer: its size, the active camera's
  position and focal point, the position \<^verbatim>\<open>vtkWorldPointPicker\<close> reports for a
  display coordinate, and \<^verbatim>\<open>DisplayToWorld\<close>, which yields a homogeneous world
  point. The last two are computed inside VTK and are parameters here.
\<close>

record vtkRenderer =
  GetSize :: "int \<times> int"
  camera_GetPosition :: vec3
  camera_GetFocalPoint :: vec3
  WorldPointPicker_Pick :: "int \<Rightarrow> int \<Rightarrow> vec3"
  DisplayToWorld :: "int \<Rightarrow> int \<Rightarrow> real \<Rightarrow> real \<times> real \<times> real \<times> real"

text \<open>\<^verbatim>\<open>picker.GetPickPosition()\<close>: VTK's Python wrappers hand a \<^verbatim>\<open>double[3]\<close>
  back as a tuple.\<close>

definition GetPickPosition :: "vtkRenderer \<Rightarrow> int \<Rightarrow> int \<Rightarrow> py_seq" where
  "GetPickPosition renderer display_x display_y =
     (case WorldPointPicker_Pick renderer display_x display_y of (x, y, z) \<Rightarrow> PyTuple [x, y, z])"

text \<open>The normalised view direction (lines 650--663): focal point minus camera
  position, divided by its length when that is positive.\<close>

definition view_direction :: "vtkRenderer \<Rightarrow> vec3" where
  "view_direction renderer =
     (case camera_GetPosition renderer of (p0, p1, p2) \<Rightarrow>
      case camera_GetFocalPoint renderer of (f0, f1, f2) \<Rightarrow>
        let v0 = f0 - p0; v1 = f1 - p1; v2 = f2 - p2;
            len = sqrt (v0\<^sup>2 + v1\<^sup>2 + v2\<^sup>2)
        in if len > 0 then (v0 / len, v1 / len, v2 / len) else (v0, v1, v2))"

text \<open>One \<^verbatim>\<open>SetDisplayPoint; DisplayToWorld; GetWorldPoint\<close> round followed by
  the division by the homogeneous coordinate (lines 666--674); a zero fourth component
  raises \<^verbatim>\<open>ZeroDivisionError\<close>.\<close>

definition world_point_at :: "vtkRenderer \<Rightarrow> int \<Rightarrow> int \<Rightarrow> real \<Rightarrow> py_error + vec3" where
  "world_point_at renderer display_x display_y z =
     (case DisplayToWorld renderer display_x display_y z of (w0, w1, w2, w3) \<Rightarrow>
        if w3 = 0 then Inl ZeroDivisionError else Inr (w0 / w3, w1 / w3, w2 / w3))"

text \<open>The pick ray (lines 665--686): its origin is the world point at depth 0, its
  direction the normalised difference to the world point at depth 1.\<close>

definition pick_ray :: "vtkRenderer \<Rightarrow> int \<Rightarrow> int \<Rightarrow> py_error + (vec3 \<times> vec3)" where
  "pick_ray renderer display_x display_y =
     (case world_point_at renderer display_x display_y 0 of
        Inl e \<Rightarrow> Inl e
      | Inr (a0, a1, a2) \<Rightarrow>
          (case world_point_at renderer display_x display_y 1 of
             Inl e \<Rightarrow> Inl e
           | Inr (b0, b1, b2) \<Rightarrow>
               let r0 = b0 - a0; r1 = b1 - a1; r2 = b2 - a2;
                   len = sqrt (r0\<^sup>2 + r1\<^sup>2 + r2\<^sup>2);
                   ray_dir = (if len > 0 then (r0 / len, r1 / len, r2 / len)
                              else (r0, r1, r2))
               in Inr ((a0, a1, a2), ray_dir)))"

text \<open>The point returned when the plane test does not apply (lines 720--725): ten
  units from the camera along the view direction.\<close>

definition view_fallback_point :: "vtkRenderer \<Rightarrow> vec3" where
  "view_fallback_point renderer =
     (case camera_GetPosition renderer of (p0, p1, p2) \<Rightarrow>
      case view_direction renderer of (v0, v1, v2) \<Rightarrow>
        (p0 + v0 * 10, p1 + v1 * 10, p2 + v2 * 10))"

text \<open>The ray parameter \<^verbatim>\<open>t\<close> of line 711.\<close>

definition ray_parameter :: "vtkRenderer \<Rightarrow> vec3 \<Rightarrow> vec3 \<Rightarrow> real" where
  "ray_parameter renderer Orig D =
     (case camera_GetFocalPoint renderer of (q0, q1, q2) \<Rightarrow>
      case Orig of (o0, o1, o2) \<Rightarrow>
      case view_direction renderer of (n0, n1, n2) \<Rightarrow>
        ((q0 - o0) * n0 + (q1 - o1) * n1 + (q2 - o2) * n2) / dot3 D (view_direction renderer))"

text \<open>
  The plane-intersection method (lines 648--725), that is, everything
  \<^verbatim>\<open>get_world_position_from_mouse\<close> does after its object-pick guard: intersect the
  pick ray with the plane through the focal point whose normal is the view direction.
\<close>

definition plane_intersection_method :: "vtkRenderer \<Rightarrow> int \<Rightarrow> int \<Rightarrow> py_error + py_seq" where
  "plane_intersection_method renderer display_x display_y =
     (case pick_ray renderer display_x display_y of
        Inl e \<Rightarrow> Inl e
      | Inr (Orig, D) \<Rightarrow>
          let dot_DN = dot3 D (view_direction renderer);
              fallback = (case view_fallback_point renderer of (x, y, z) \<Rightarrow> PyList [x, y, z])
          in if \<bar>dot_DN\<bar> > 1 / 1000000
             then (let t = ray_parameter renderer Orig D
                   in if t \<ge> 0
                      then (case Orig of (o0, o1, o2) \<Rightarrow> case D of (d0, d1, d2) \<Rightarrow>
                              Inr (PyList [o0 + t * d0, o1 + t * d1, o2 + t * d2]))
                      else Inr fallback)
             else Inr fallback)"

text \<open>\<^verbatim>\<open>MeasurementTool.get_world_position_from_mouse\<close> (lines 622--725).
  \<^verbatim>\<open>None\<close> is the value \<open>Inr None\<close>.\<close>

definition get_world_position_from_mouse ::
    "vtkRenderer \<Rightarrow> int \<Rightarrow> int \<Rightarrow> py_error + py_seq option" where
  "get_world_position_from_mouse renderer mouse_x mouse_y =
     (let renderer_size = GetSize renderer
      in if fst renderer_size = 0 \<or> snd renderer_size = 0 then Inr None
         else
           let display_x = mouse_x;
               display_y = snd renderer_size - mouse_y;
               pick_pos = GetPickPosition renderer display_x display_y
           in if py_ne (GetPickPosition renderer display_x display_y) (PyList [0, 0, 0])
              then Inr (Some pick_pos)
              else (case plane_intersection_method renderer display_x display_y of
                      Inl e \<Rightarrow> Inl e
                    | Inr p \<Rightarrow> Inr (Some p)))"

text \<open>The markers of a measurement: sphere glyphs, the connecting line and the
  camera-facing distance label (a \<^verbatim>\<open>vtkFollower\<close> on a \<^verbatim>\<open>vtkVectorText\<close>).\<close>

datatype measure_actor =
    SphereMarker vec3
  | LineMarker vec3 vec3
  | TextFollower string vec3

record MeasurementTool =
  points :: "vec3 list"
  measure_actors :: "measure_actor list"

text \<open>\<^verbatim>\<open>create_distance_text_at_position\<close> (lines 859--876): the label text is the
  distance with two decimals; the follower is appended to the tool's actors and
  returned.\<close>

definition create_distance_text_at_position ::
    "MeasurementTool \<Rightarrow> vec3 \<Rightarrow> real \<Rightarrow> measure_actor \<times> MeasurementTool" where
  "create_distance_text_at_position tool pos distance =
     (let follower = TextFollower (format_2f distance) pos
      in (follower, tool\<lparr>measure_actors := measure_actors tool @ [follower]\<rparr>))"

text \<open>The distance expression of \<^verbatim>\<open>create_distance_text\<close> (lines 930--934).\<close>

definition distance :: "vec3 \<Rightarrow> vec3 \<Rightarrow> real" where
  "distance point1 point2 =
     (case point1 of (x1, y1, z1) \<Rightarrow> case point2 of (x2, y2, z2) \<Rightarrow>
        sqrt ((x2 - x1)\<^sup>2 + (y2 - y1)\<^sup>2 + (z2 - z1)\<^sup>2))"

text \<open>\<^verbatim>\<open>create_distance_text\<close> (lines 928--943).\<close>

definition create_distance_text ::
    "MeasurementTool \<Rightarrow> vec3 \<Rightarrow> vec3 \<Rightarrow> measure_actor \<times> MeasurementTool" where
  "create_distance_text tool point1 point2 =
     (case point1 of (x1, y1, z1) \<Rightarrow> case point2 of (x2, y2, z2) \<Rightarrow>
        let mid_point = ((x1 + x2) / 2, (y1 + y2) / 2, (z1 + z2) / 2)
        in create_distance_text_at_position tool mid_point (distance point1 point2))"



section \<open>Scene objects\<close>

text \<open>
  A scene object is a \<^verbatim>\<open>vtkActor\<close>: the fields the editor reads and writes through
  \<^verbatim>\<open>GetPosition/SetPosition\<close>, \<^verbatim>\<open>GetOrientation/SetOrientation\<close> (Euler angles
  in degrees), \<^verbatim>\<open>GetScale/SetScale\<close>, \<^verbatim>\<open>GetProperty().GetOpacity/SetOpacity\<close> and
  \<^verbatim>\<open>VisibilityOn/VisibilityOff\<close>. Each field holds what the last setter stored; the
  getters of position, scale, opacity and visibility return it. \<^verbatim>\<open>GetOrientation\<close>
  does not: VTK recomputes the Euler angles from the actor's matrix, so it returns some
  triple that stands for the same rotation as the stored one (see \<open>GetOrientation\<close>
  below). \<^verbatim>\<open>GetBounds\<close> is computed by VTK from the mesh and the transform; the mesh's part
  of it is the parameter \<open>mesh_bounds\<close>. A camera object hangs on its actor as
  \<^verbatim>\<open>_camera_object\<close> (with \<^verbatim>\<open>_is_camera = True\<close>).
\<close>

record CameraObject =
  cam_position :: vec3
  cam_focal_point :: vec3
  cam_view_up :: vec3
  vtk_camera_Position :: vec3
  vtk_camera_FocalPoint :: vec3
  vtk_camera_ViewUp :: vec3

type_synonym bounds6 = "real \<times> real \<times> real \<times> real \<times> real \<times> real"

record vtkActor =
  Position :: vec3
  Orientation :: vec3
  Scale :: vec3
  Opacity :: real
  Visibility :: bool
  mesh_bounds :: "vec3 \<Rightarrow> vec3 \<Rightarrow> vec3 \<Rightarrow> bounds6"
  camera_object :: "CameraObject option"

definition GetBounds :: "vtkActor \<Rightarrow> bounds6" where
  "GetBounds a = mesh_bounds a (Position a) (Orientation a) (Scale a)"

text \<open>Objects are shared by reference between the registry, the selection, the gizmos
  and the light table, so they live in a store addressed by object identity.\<close>

type_synonym actor_ref = nat

type_synonym store = "actor_ref \<Rightarrow> vtkActor"

text \<open>\<^verbatim>\<open>CameraObject.update_vtk_camera\<close>, \<^verbatim>\<open>set_position\<close>,
  \<^verbatim>\<open>set_focal_point\<close> and \<^verbatim>\<open>get_view_direction\<close> (lines 103--136).
  \<^verbatim>\<open>set_position\<close> also calls \<^verbatim>\<open>self.actor.SetPosition(position)\<close>; the camera's
  actor is the actor the camera object hangs on, and that write is made where
  \<^verbatim>\<open>set_position\<close> is called.\<close>

definition update_vtk_camera :: "CameraObject \<Rightarrow> CameraObject" where
  "update_vtk_camera c =
     c\<lparr>vtk_camera_Position := cam_position c,
       vtk_camera_FocalPoint := cam_focal_point c,
       vtk_camera_ViewUp := cam_view_up c\<rparr>"

definition set_position :: "CameraObject \<Rightarrow> vec3 \<Rightarrow> CameraObject" where
  "set_position c pos = update_vtk_camera (c\<lparr>cam_position := pos\<rparr>)"

definition set_focal_point :: "CameraObject \<Rightarrow> vec3 \<Rightarrow> CameraObject" where
  "set_focal_point c focal = update_vtk_camera (c\<lparr>cam_focal_point := focal\<rparr>)"

definition get_view_direction :: "CameraObject \<Rightarrow> vec3" where
  "get_view_direction c =
     (case cam_focal_point c of (f0, f1, f2) \<Rightarrow> case cam_position c of (p0, p1, p2) \<Rightarrow>
        let d0 = f0 - p0; d1 = f1 - p1; d2 = f2 - p2;
            len = sqrt (d0\<^sup>2 + d1\<^sup>2 + d2\<^sup>2)
        in if len > 0 then (d0 / len, d1 / len, d2 / len) else (0, 0, -1))"

section \<open>The three gizmos\<close>

text \<open>
  \<^verbatim>\<open>MoveGizmo\<close>, \<^verbatim>\<open>RotateGizmo\<close> and \<^verbatim>\<open>ScaleGizmo\<close> have the same state: the
  handle actors by name (\<^verbatim>\<open>self.actors\<close>), the visibility flag, the target, and the
  restore table \<^verbatim>\<open>original_opacities\<close>, a dictionary keyed by the object. Of a handle
  actor the model keeps its position and whether it is in the renderer.
\<close>

record gizmo_handle =
  handle_Position :: vec3
  in_renderer :: bool

record Gizmo =
  gizmo_actors :: "(string \<times> gizmo_handle) list"
  is_visible :: bool
  selected_actor :: "actor_ref option"
  original_opacities :: "actor_ref \<rightharpoonup> real"

text \<open>
  \<^verbatim>\<open>show(target_actor)\<close>. The three classes' bodies differ only in the opacity the
  target is dimmed to: 0.3 for Move (line 1683), 0.2 for Rotate (line 1822), 0.3 for
  Scale (line 1974). \<^verbatim>\<open>None\<close> as target only records the (absent) target.
\<close>

definition gizmo_show :: "real \<Rightarrow> Gizmo \<Rightarrow> store \<Rightarrow> actor_ref option \<Rightarrow> Gizmo \<times> store" where
  "gizmo_show dimmed g s target_actor =
     (let g1 = g\<lparr>selected_actor := target_actor\<rparr>
      in case target_actor of
           None \<Rightarrow> (g1, s)
         | Some target \<Rightarrow>
             let original_opacity = Opacity (s target);
                 g2 = g1\<lparr>original_opacities := (original_opacities g1)(target \<mapsto> original_opacity)\<rparr>;
                 s1 = s(target := (s target)\<lparr>Opacity := dimmed\<rparr>);
                 pos = Position (s1 target);
                 g3 = g2\<lparr>gizmo_actors :=
                         map (\<lambda>(axis_name, axis_actor).
                                (axis_name, axis_actor\<lparr>handle_Position := pos, in_renderer := True\<rparr>))
                             (gizmo_actors g2)\<rparr>
             in (g3\<lparr>is_visible := True\<rparr>, s1))"

definition MoveGizmo_show :: "Gizmo \<Rightarrow> store \<Rightarrow> actor_ref option \<Rightarrow> Gizmo \<times> store" where
  "MoveGizmo_show = gizmo_show (3 / 10)"

definition RotateGizmo_show :: "Gizmo \<Rightarrow> store \<Rightarrow> actor_ref option \<Rightarrow> Gizmo \<times> store" where
  "RotateGizmo_show = gizmo_show (2 / 10)"

definition ScaleGizmo_show :: "Gizmo \<Rightarrow> store \<Rightarrow> actor_ref option \<Rightarrow> Gizmo \<times> store" where
  "ScaleGizmo_show = gizmo_show (3 / 10)"

text \<open>
  \<^verbatim>\<open>hide()\<close> (lines 1704--1724, 1843--1863, 1994--2013), the same in the three
  classes: every object in the restore table gets its recorded opacity back (each key
  once, so the order of the dictionary does not matter), the table is cleared, the
  handles leave the renderer.
\<close>

definition gizmo_hide :: "Gizmo \<Rightarrow> store \<Rightarrow> Gizmo \<times> store" where
  "gizmo_hide g s =
     (let s1 = (\<lambda>actor. case original_opacities g actor of
                           None \<Rightarrow> s actor
                         | Some original_opacity \<Rightarrow> (s actor)\<lparr>Opacity := original_opacity\<rparr>);
          g1 = g\<lparr>original_opacities := Map.empty\<rparr>;
          g2 = g1\<lparr>gizmo_actors :=
                  map (\<lambda>(axis_name, axis_actor). (axis_name, axis_actor\<lparr>in_renderer := False\<rparr>))
                      (gizmo_actors g1)\<rparr>
      in (g2\<lparr>is_visible := False, selected_actor := None\<rparr>, s1))"

definition MoveGizmo_hide :: "Gizmo \<Rightarrow> store \<Rightarrow> Gizmo \<times> store" where
  "MoveGizmo_hide = gizmo_hide"

definition RotateGizmo_hide :: "Gizmo \<Rightarrow> store \<Rightarrow> Gizmo \<times> store" where
  "RotateGizmo_hide = gizmo_hide"

definition ScaleGizmo_hide :: "Gizmo \<Rightarrow> store \<Rightarrow> Gizmo \<times> store" where
  "ScaleGizmo_hide = gizmo_hide"

text \<open>\<^verbatim>\<open>get_axis_at_position\<close>: \<open>picked\<close> is the key of the handle of this gizmo that
  \<^verbatim>\<open>vtkPropPicker\<close> hit, if it hit one.\<close>

definition get_axis_at_position :: "Gizmo \<Rightarrow> string option \<Rightarrow> string option" where
  "get_axis_at_position g picked =
     (if \<not> is_visible g then None
      else case picked of
             None \<Rightarrow> None
           | Some axis \<Rightarrow> if axis \<in> fst ` set (gizmo_actors g) then Some axis else None)"

section \<open>The light manager\<close>

text \<open>
  \<^verbatim>\<open>LightManager.light_objects\<close> maps a light's icon actor to its info dictionary:
  the type tag and the \<^verbatim>\<open>vtkLight\<close> (four of them, with their offsets, for an area
  light). Of a \<^verbatim>\<open>vtkLight\<close> the model keeps position and focal point.
\<close>

record vtkLight =
  light_Position :: vec3
  light_FocalPoint :: vec3

datatype light_info =
    point_light vtkLight
  | sun_light vtkLight
  | spot_light vtkLight
  | area_light "vtkLight list" "vec3 list"
  | mesh_light vtkLight

record LightManager =
  light_objects :: "actor_ref \<rightharpoonup> light_info"

text \<open>The \<^verbatim>\<open>_update_*_light\<close> helpers (lines 4247--4252, 4285--4301, 4334--4341,
  4386--4393, 4442--4450).\<close>

definition update_point_light :: "vtkActor \<Rightarrow> vtkLight \<Rightarrow> vtkLight" where
  "update_point_light actor light = light\<lparr>light_Position := Position actor, light_FocalPoint := (0, 0, 0)\<rparr>"

definition update_sun_light :: "vtkActor \<Rightarrow> vtkLight \<Rightarrow> vtkLight" where
  "update_sun_light actor light =
     (case Position actor of (p0, p1, p2) \<Rightarrow>
        let direction = (if (- p0, - p1, - p2) = (0, 0, 0) then (0, -1, - (1 / 2)) else (- p0, - p1, - p2))
        in case direction of (d0, d1, d2) \<Rightarrow>
             light\<lparr>light_Position := (p0, p1, p2), light_FocalPoint := (p0 + d0, p1 + d1, p2 + d2)\<rparr>)"

definition update_spot_light :: "vtkActor \<Rightarrow> vtkLight \<Rightarrow> vtkLight" where
  "update_spot_light actor light = light\<lparr>light_Position := Position actor, light_FocalPoint := (0, 0, 0)\<rparr>"

definition update_area_light :: "vtkActor \<Rightarrow> vtkLight list \<Rightarrow> vec3 list \<Rightarrow> vtkLight list" where
  "update_area_light actor lights offsets =
     (case Position actor of (p0, p1, p2) \<Rightarrow>
        map (\<lambda>(off, l). case off of (o0, o1, o2) \<Rightarrow>
               l\<lparr>light_Position := (p0 + o0, p1 + o1, p2 + o2), light_FocalPoint := (0, 0, 0)\<rparr>)
            (zip offsets lights)
        @ drop (length offsets) lights)"

definition update_mesh_light :: "vtkActor \<Rightarrow> vtkLight \<Rightarrow> vtkLight" where
  "update_mesh_light actor light =
     (case GetBounds actor of (b0, b1, b2, b3, b4, b5) \<Rightarrow>
        light\<lparr>light_Position := ((b0 + b1) / 2, (b2 + b3) / 2, (b4 + b5) / 2)\<rparr>)"

text \<open>\<^verbatim>\<open>sync_light_for_actor\<close> (lines 4171--4192); the lookup
  \<^verbatim>\<open>self.light_objects[actor]\<close> comes after the membership test.\<close>

definition sync_light_for_actor ::
    "LightManager \<Rightarrow> store \<Rightarrow> actor_ref \<Rightarrow> py_error + LightManager" where
  "sync_light_for_actor lm s actor =
     (if actor \<notin> dom (light_objects lm) then Inr lm
      else case dict_getitem (light_objects lm) actor of
        Inl e \<Rightarrow> Inl e
      | Inr info \<Rightarrow>
          Inr (lm\<lparr>light_objects := (light_objects lm)(actor \<mapsto>
               (case info of
                  point_light l \<Rightarrow> point_light (update_point_light (s actor) l)
                | sun_light l \<Rightarrow> sun_light (update_sun_light (s actor) l)
                | spot_light l \<Rightarrow> spot_light (update_spot_light (s actor) l)
                | area_light ls offs \<Rightarrow> area_light (update_area_light (s actor) ls offs) offs
                | mesh_light l \<Rightarrow> mesh_light (update_mesh_light (s actor) l)))\<rparr>))"

section \<open>The object manager (scene registry)\<close>

text \<open>
  \<^verbatim>\<open>ObjectManager\<close>: the registered objects \<^verbatim>\<open>actors\<close>, the selection
  \<^verbatim>\<open>selected_actors\<close> (a list, first element primary), the outlines
  \<^verbatim>\<open>outline_actors\<close> (a dictionary from the object to its outline), the three gizmos
  and the active tool's name. Every outline is an actor of its own, made by
  \<^verbatim>\<open>create_outline\<close> and referenced from this dictionary only, so it is held by value
  there. \<open>objects\<close> is the store of the scene objects; \<open>light_manager\<close> is the
  attribute the light manager installs on the object manager (line 4148), absent until
  then. \<open>euler_readback\<close> is VTK's part of \<^verbatim>\<open>GetOrientation\<close>: the Euler angles it
  derives from the matrix of an actor whose orientation was set to a given triple.
\<close>

record ObjectManager =
  actors :: "actor_ref list"
  selected_actors :: "actor_ref list"
  outline_actors :: "actor_ref \<rightharpoonup> vtkActor"
  move_gizmo :: Gizmo
  rotate_gizmo :: Gizmo
  scale_gizmo :: Gizmo
  active_gizmo :: "string option"
  objects :: store
  light_manager :: "LightManager option"
  euler_readback :: "vec3 \<Rightarrow> vec3"

text \<open>\<^verbatim>\<open>actor.GetOrientation()\<close> for an object of the store.\<close>

definition GetOrientation :: "ObjectManager \<Rightarrow> actor_ref \<Rightarrow> vec3" where
  "GetOrientation m actor = euler_readback m (Orientation (objects m actor))"

text \<open>Truthiness of \<^verbatim>\<open>self.active_gizmo\<close>: \<^verbatim>\<open>None\<close> and the empty string are
  false.\<close>

definition truthy :: "string option \<Rightarrow> bool" where
  "truthy v = (case v of None \<Rightarrow> False | Some str \<Rightarrow> str \<noteq> [])"

text \<open>\<^verbatim>\<open>self.outline_actors[actor].VisibilityOff()\<close> and \<^verbatim>\<open>VisibilityOn()\<close>, guarded
  by \<^verbatim>\<open>if actor in self.outline_actors\<close> at each use.\<close>

definition outline_set_visibility :: "ObjectManager \<Rightarrow> actor_ref \<Rightarrow> bool \<Rightarrow> ObjectManager" where
  "outline_set_visibility m actor v =
     (case outline_actors m actor of
        None \<Rightarrow> m
      | Some outline_actor \<Rightarrow>
          m\<lparr>outline_actors := (outline_actors m)(actor \<mapsto> outline_actor\<lparr>Visibility := v\<rparr>)\<rparr>)"

text \<open>\<^verbatim>\<open>update_outline_position\<close> (lines 3917--3922).\<close>

definition update_outline_position :: "ObjectManager \<Rightarrow> actor_ref \<Rightarrow> ObjectManager" where
  "update_outline_position m actor =
     (case outline_actors m actor of
        None \<Rightarrow> m
      | Some outline_actor \<Rightarrow>
          m\<lparr>outline_actors := (outline_actors m)(actor \<mapsto>
               outline_actor\<lparr>Position := Position (objects m actor),
                             Orientation := GetOrientation m actor\<rparr>)\<rparr>)"

text \<open>\<^verbatim>\<open>deselect_object\<close> (lines 3712--3717); \<^verbatim>\<open>list.remove\<close> takes out the first
  occurrence.\<close>

definition deselect_object :: "ObjectManager \<Rightarrow> actor_ref \<Rightarrow> ObjectManager" where
  "deselect_object m actor =
     (let m1 = (if actor \<in> set (selected_actors m)
                then m\<lparr>selected_actors := remove1 actor (selected_actors m)\<rparr> else m)
      in if actor \<in> dom (outline_actors m1) then outline_set_visibility m1 actor False else m1)"

text \<open>\<^verbatim>\<open>deselect_all\<close> (lines 3719--3730): hide the three gizmos, switch off the
  outline of every selected object, clear the selection.\<close>

definition deselect_all :: "ObjectManager \<Rightarrow> ObjectManager" where
  "deselect_all m =
     (let (mg, s1) = MoveGizmo_hide (move_gizmo m) (objects m);
          (rg, s2) = RotateGizmo_hide (rotate_gizmo m) s1;
          (sg, s3) = ScaleGizmo_hide (scale_gizmo m) s2;
          m1 = m\<lparr>move_gizmo := mg, rotate_gizmo := rg, scale_gizmo := sg, objects := s3\<rparr>;
          m2 = foldl (\<lambda>acc actor. if actor \<in> dom (outline_actors acc)
                                    then outline_set_visibility acc actor False else acc)
                     m1 (selected_actors m1)
      in m2\<lparr>selected_actors := []\<rparr>)"

text \<open>The gizmo update that ends \<^verbatim>\<open>select_object\<close> (lines 3754--3764): with a
  selection and an active tool, the tool's gizmo is shown on the primary selection.\<close>

definition update_gizmo_for_selection :: "ObjectManager \<Rightarrow> ObjectManager" where
  "update_gizmo_for_selection m =
     (case selected_actors m of
        [] \<Rightarrow> m
      | primary # rest \<Rightarrow>
          if \<not> truthy (active_gizmo m) then m
          else if active_gizmo m = Some ''move'' then
            (let (g, s) = MoveGizmo_show (move_gizmo m) (objects m) (Some primary)
             in m\<lparr>move_gizmo := g, objects := s\<rparr>)
          else if active_gizmo m = Some ''rotate'' then
            (let (g, s) = RotateGizmo_show (rotate_gizmo m) (objects m) (Some primary)
             in m\<lparr>rotate_gizmo := g, objects := s\<rparr>)
          else if active_gizmo m = Some ''scale'' then
            (let (g, s) = ScaleGizmo_show (scale_gizmo m) (objects m) (Some primary)
             in m\<lparr>scale_gizmo := g, objects := s\<rparr>)
          else m)"

text \<open>\<^verbatim>\<open>select_object\<close> (lines 3732--3766, the definition in force: it is the later
  of the two in the class).\<close>

definition select_object :: "ObjectManager \<Rightarrow> actor_ref \<Rightarrow> bool \<Rightarrow> ObjectManager" where
  "select_object m actor multi_select =
     (let m1 =
        (if multi_select \<and> actor \<in> set (selected_actors m) then deselect_object m actor
         else if multi_select then
           (if actor \<notin> set (selected_actors m) then
              (let m2 = m\<lparr>selected_actors := selected_actors m @ [actor]\<rparr>
               in if actor \<in> dom (outline_actors m2)
                  then update_outline_position (outline_set_visibility m2 actor True) actor
                  else m2)
            else m)
         else
           (let m2 = (deselect_all m)\<lparr>selected_actors := [actor]\<rparr>
            in if actor \<in> dom (outline_actors m2)
               then update_outline_position (outline_set_visibility m2 actor True) actor
               else m2))
      in update_gizmo_for_selection m1)"

text \<open>
  \<^verbatim>\<open>update_outline_position\<close> and \<^verbatim>\<open>deselect_object\<close> once more, with every
  dictionary lookup and list removal written as the raising operation it is in Python,
  so that "raises nothing" is a statement about them.
\<close>

definition update_outline_position_raising ::
    "ObjectManager \<Rightarrow> actor_ref \<Rightarrow> py_error + ObjectManager" where
  "update_outline_position_raising m actor =
     (if actor \<in> dom (outline_actors m) then
        (case dict_getitem (outline_actors m) actor of
           Inl e \<Rightarrow> Inl e
         | Inr outline_actor \<Rightarrow>
             Inr (m\<lparr>outline_actors := (outline_actors m)(actor \<mapsto>
                    outline_actor\<lparr>Position := Position (objects m actor),
                                  Orientation := GetOrientation m actor\<rparr>)\<rparr>))
      else Inr m)"

definition deselect_object_raising :: "ObjectManager \<Rightarrow> actor_ref \<Rightarrow> py_error + ObjectManager" where
  "deselect_object_raising m actor =
     (case (if actor \<in> set (selected_actors m) then
              (case list_remove (selected_actors m) actor of
                 Inl e \<Rightarrow> Inl e
               | Inr xs \<Rightarrow> Inr (m\<lparr>selected_actors := xs\<rparr>))
            else Inr m) of
        Inl e \<Rightarrow> Inl e
      | Inr m1 \<Rightarrow>
          if actor \<in> dom (outline_actors m1) then
            (case dict_getitem (outline_actors m1) actor of
               Inl e \<Rightarrow> Inl e
             | Inr outline_actor \<Rightarrow>
                 Inr (m1\<lparr>outline_actors := (outline_actors m1)(actor \<mapsto>
                        outline_actor\<lparr>Visibility := False\<rparr>)\<rparr>))
          else Inr m1)"

text \<open>\<^verbatim>\<open>move_object\<close> (lines 4020--4047, the definition in force), with its raising
  operations. The object is moved whether or not it is in \<^verbatim>\<open>self.actors\<close>.\<close>

definition move_object ::
    "ObjectManager \<Rightarrow> actor_ref \<Rightarrow> real \<Rightarrow> real \<Rightarrow> real \<Rightarrow> py_error + ObjectManager" where
  "move_object m actor delta_x delta_y delta_z =
     (case Position (objects m actor) of (c0, c1, c2) \<Rightarrow>
        let new_pos = (c0 + delta_x, c1 + delta_y, c2 + delta_z);
            m1 = m\<lparr>objects := (objects m)(actor := (objects m actor)\<lparr>Position := new_pos\<rparr>)\<rparr>
        in case update_outline_position_raising m1 actor of
             Inl e \<Rightarrow> Inl e
           | Inr m2 \<Rightarrow>
               let m3 = (case camera_object (objects m2 actor) of
                           None \<Rightarrow> m2
                         | Some camera_obj \<Rightarrow>
                             let cam1 = set_position camera_obj new_pos;
                                 direction = get_view_direction cam1;
                                 new_focal = (case direction of (d0, d1, d2) \<Rightarrow>
                                                (c0 + delta_x + d0 * 10, c1 + delta_y + d1 * 10,
                                                 c2 + delta_z + d2 * 10));
                                 cam2 = set_focal_point cam1 new_focal
                             in m2\<lparr>objects := (objects m2)(actor :=
                                   (objects m2 actor)\<lparr>Position := new_pos,
                                                       camera_object := Some cam2\<rparr>)\<rparr>)
               in case light_manager m3 of
                    None \<Rightarrow> Inr m3
                  | Some lm \<Rightarrow>
                      (case sync_light_for_actor lm (objects m3) actor of
                         Inl e \<Rightarrow> Inl e
                       | Inr lm1 \<Rightarrow> Inr (m3\<lparr>light_manager := Some lm1\<rparr>)))"

text \<open>\<^verbatim>\<open>get_object_at_position\<close> (lines 3795--3803): \<open>picked_actor\<close> is what
  \<^verbatim>\<open>vtkPropPicker\<close> returned.\<close>

definition get_object_at_position :: "ObjectManager \<Rightarrow> actor_ref option \<Rightarrow> actor_ref option" where
  "get_object_at_position m picked_actor =
     (case picked_actor of
        None \<Rightarrow> None
      | Some a \<Rightarrow> if a \<in> set (actors m) then Some a else None)"

section \<open>The viewport widget (interaction controller and camera)\<close>

record vtkCamera =
  Camera_Position :: vec3
  Camera_FocalPoint :: vec3
  Camera_ViewUp :: vec3

text \<open>
  The part of \<^verbatim>\<open>VTKWidget\<close> that the camera orbit and the rotate and scale drags
  use. \<open>updates_paused\<close> is \<^verbatim>\<open>main_window.right_panel.transform_widget.updates_paused\<close>,
  \<open>None\<close> while \<^verbatim>\<open>main_window\<close> is \<^verbatim>\<open>None\<close>. \<open>float_near_pole\<close> is the outcome
  of the test \<^verbatim>\<open>abs(theta) < 0.01 or abs(theta - math.pi) < 0.01\<close> of line 4766 as
  the floats decide it: the orbit clamps the angle to the very bounds this test
  compares with, and there rounding decides (at the upper bound the test holds in
  floats although the exact values are equal), so the test is a parameter.
\<close>

record VTKWidget =
  object_manager :: ObjectManager
  renderer_GetSize :: "int \<times> int"
  camera :: vtkCamera
  camera_radius :: real
  camera_theta :: real
  camera_phi :: real
  rotation_pivot :: vec3
  last_mouse_pos :: QPoint
  is_rotating_view :: bool
  is_rotating_object :: bool
  rotate_axis :: "string option"
  rotate_start_point :: QPoint
  is_scaling :: bool
  scale_axis :: "string option"
  scale_start_point :: QPoint
  original_scale :: vec3
  updates_paused :: "bool option"
  float_near_pole :: "real \<Rightarrow> bool"

text \<open>\<^verbatim>\<open>update_camera_position\<close> (lines 4745--4772).\<close>

definition update_camera_position :: "VTKWidget \<Rightarrow> VTKWidget" where
  "update_camera_position w =
     (case rotation_pivot w of (v0, v1, v2) \<Rightarrow>
        let x = camera_radius w * sin (camera_theta w) * cos (camera_phi w);
            y = camera_radius w * sin (camera_theta w) * sin (camera_phi w);
            z = camera_radius w * cos (camera_theta w);
            camera_pos = (x + v0, y + v1, z + v2);
            up = (if float_near_pole w (camera_theta w) then (0, 1, 0) else (0, 0, 1))
        in w\<lparr>camera := (camera w)\<lparr>Camera_Position := camera_pos,
                                   Camera_FocalPoint := (v0, v1, v2),
                                   Camera_ViewUp := up\<rparr>\<rparr>)"

text \<open>
  The view-drag branch of \<^verbatim>\<open>mouseMoveEvent\<close> (lines 5102--5154), taken while the
  middle button drags the view: with Shift the pivot is panned, without it the camera
  orbits (lines 5145--5151).
\<close>

definition pan_view :: "VTKWidget \<Rightarrow> QPoint \<Rightarrow> VTKWidget" where
  "pan_view w delta =
     (case Camera_Position (camera w) of (p0, p1, p2) \<Rightarrow>
      case Camera_FocalPoint (camera w) of (f0, f1, f2) \<Rightarrow>
      case Camera_ViewUp (camera w) of (u0, u1, u2) \<Rightarrow>
      case rotation_pivot w of (v0, v1, v2) \<Rightarrow>
        let pan_sensitivity = 5 / 1000;
            d0 = f0 - p0; d1 = f1 - p1; d2 = f2 - p2;
            r0 = u1 * d2 - u2 * d1; r1 = u2 * d0 - u0 * d2; r2 = u0 * d1 - u1 * d0;
            right_length = sqrt (r0\<^sup>2 + r1\<^sup>2 + r2\<^sup>2);
            right_vec = (if right_length > 0
                         then (r0 / right_length, r1 / right_length, r2 / right_length)
                         else (r0, r1, r2));
            pan_scale = camera_radius w * (1 / 10);
            pan_x = of_int (fst delta) * pan_sensitivity * pan_scale;
            pan_y = of_int (snd delta) * pan_sensitivity * pan_scale
        in case right_vec of (e0, e1, e2) \<Rightarrow>
             w\<lparr>rotation_pivot := (v0 + (e0 * pan_x + u0 * pan_y),
                                 v1 + (e1 * pan_x + u1 * pan_y),
                                 v2 + (e2 * pan_x + u2 * pan_y))\<rparr>)"

definition orbit :: "VTKWidget \<Rightarrow> QPoint \<Rightarrow> VTKWidget" where
  "orbit w delta =
     (let sensitivity = 8 / 1000;
          phi1 = camera_phi w - of_int (fst delta) * sensitivity;
          theta1 = camera_theta w - of_int (snd delta) * sensitivity;
          theta2 = py_max (1 / 100) (py_min (pi - 1 / 100) theta1);
          phi2 = py_fmod phi1 (2 * pi)
      in w\<lparr>camera_phi := phi2, camera_theta := theta2\<rparr>)"

definition view_drag :: "VTKWidget \<Rightarrow> QPoint \<Rightarrow> bool \<Rightarrow> VTKWidget" where
  "view_drag w pos shift =
     (let delta = (fst pos - fst (last_mouse_pos w), snd pos - snd (last_mouse_pos w));
          w1 = w\<lparr>last_mouse_pos := pos\<rparr>;
          w2 = (if shift then pan_view w1 delta else orbit w1 delta)
      in update_camera_position w2)"

text \<open>\<^verbatim>\<open>handle_object_selection\<close> (lines 5425--5449).\<close>

definition handle_object_selection ::
    "VTKWidget \<Rightarrow> QPoint \<Rightarrow> bool \<Rightarrow> actor_ref option \<Rightarrow> VTKWidget" where
  "handle_object_selection w mouse_pos multi_select prop_pick =
     (if actors (object_manager w) = [] then w
      else if fst (renderer_GetSize w) = 0 \<or> snd (renderer_GetSize w) = 0 then w
      else
        let w1 = (case get_object_at_position (object_manager w) prop_pick of
                    Some picked_actor \<Rightarrow>
                      w\<lparr>object_manager := select_object (object_manager w) picked_actor multi_select\<rparr>
                  | None \<Rightarrow>
                      if \<not> multi_select then w\<lparr>object_manager := deselect_all (object_manager w)\<rparr>
                      else w)
        in update_camera_position w1)"

text \<open>\<^verbatim>\<open>handle_rotate_start\<close> (lines 5158--5179); \<open>handle_pick\<close> and \<open>prop_pick\<close> are
  what the two prop picks at the pointer hit.\<close>

definition handle_rotate_start ::
    "VTKWidget \<Rightarrow> QPoint \<Rightarrow> string option \<Rightarrow> actor_ref option \<Rightarrow> VTKWidget" where
  "handle_rotate_start w mouse_pos handle_pick prop_pick =
     (if fst (renderer_GetSize w) = 0 \<or> snd (renderer_GetSize w) = 0 then w
      else
        let axis = get_axis_at_position (rotate_gizmo (object_manager w)) handle_pick
        in if truthy axis \<and> selected_actors (object_manager w) \<noteq> []
           then w\<lparr>is_rotating_object := True, rotate_axis := axis, rotate_start_point := mouse_pos\<rparr>
           else handle_object_selection w mouse_pos False prop_pick)"

text \<open>The rotation a pixel delta stands for (lines 5190--5199): half a degree per
  pixel, the vertical delta for the X ring, the horizontal one for the Y and Z rings.\<close>

definition rotation_delta :: "string option \<Rightarrow> QPoint \<Rightarrow> vec3" where
  "rotation_delta axis delta =
     (let sensitivity = 1 / 2
      in if axis = Some ''x'' then (of_int (snd delta) * sensitivity, 0, 0)
         else if axis = Some ''y'' then (0, of_int (fst delta) * sensitivity, 0)
         else if axis = Some ''z'' then (0, 0, of_int (fst delta) * sensitivity)
         else (0, 0, 0))"

text \<open>\<^verbatim>\<open>handle_rotate_drag\<close> (lines 5181--5221).\<close>

definition handle_rotate_drag :: "VTKWidget \<Rightarrow> QPoint \<Rightarrow> VTKWidget" where
  "handle_rotate_drag w mouse_pos =
     (if \<not> is_rotating_object w then w
      else case selected_actors (object_manager w) of
        [] \<Rightarrow> w
      | selected # rest \<Rightarrow>
          let m = object_manager w;
              delta = (fst mouse_pos - fst (rotate_start_point w),
                       snd mouse_pos - snd (rotate_start_point w))
          in case rotation_delta (rotate_axis w) delta of (r0, r1, r2) \<Rightarrow>
             case GetOrientation m selected of (c0, c1, c2) \<Rightarrow>
               let new_orientation = (c0 + r0, c1 + r1, c2 + r2);
                   m1 = m\<lparr>objects := (objects m)(selected :=
                            (objects m selected)\<lparr>Orientation := new_orientation\<rparr>)\<rparr>;
                   m2 = (case outline_actors m1 selected of
                           None \<Rightarrow> m1
                         | Some outline_actor \<Rightarrow>
                             m1\<lparr>outline_actors := (outline_actors m1)(selected \<mapsto>
                                  outline_actor\<lparr>Orientation := new_orientation,
                                                Position := Position (objects m1 selected)\<rparr>)\<rparr>)
               in w\<lparr>object_manager := m2, rotate_start_point := mouse_pos\<rparr>)"

text \<open>\<^verbatim>\<open>handle_scale_start\<close> (lines 5223--5253).\<close>

definition handle_scale_start ::
    "VTKWidget \<Rightarrow> QPoint \<Rightarrow> string option \<Rightarrow> actor_ref option \<Rightarrow> VTKWidget" where
  "handle_scale_start w mouse_pos handle_pick prop_pick =
     (if fst (renderer_GetSize w) = 0 \<or> snd (renderer_GetSize w) = 0 then w
      else
        let axis = get_axis_at_position (scale_gizmo (object_manager w)) handle_pick
        in case selected_actors (object_manager w) of
             selected # rest \<Rightarrow>
               if truthy axis
               then w\<lparr>is_scaling := True, scale_axis := axis, scale_start_point := mouse_pos,
                       original_scale := Scale (objects (object_manager w) selected),
                       updates_paused := (case updates_paused w of None \<Rightarrow> None
                                          | Some b \<Rightarrow> Some True)\<rparr>
               else handle_object_selection w mouse_pos False prop_pick
           | [] \<Rightarrow> handle_object_selection w mouse_pos False prop_pick)"

text \<open>The scale vector a drag sets (lines 5273--5291): the factor is
  \<open>1 + 0.01 \<times>\<close> the horizontal pixel delta; the dragged component(s) of the scale
  recorded at drag start are multiplied by it; then every component is floored at
  0.1.\<close>

definition scale_factor :: "QPoint \<Rightarrow> QPoint \<Rightarrow> real" where
  "scale_factor start mouse_pos = 1 + of_int (fst mouse_pos - fst start) * (1 / 100)"

definition new_scale :: "string option \<Rightarrow> vec3 \<Rightarrow> real \<Rightarrow> vec3" where
  "new_scale axis orig factor =
     (case orig of (s0, s1, s2) \<Rightarrow>
        case (if axis = Some ''x'' then (s0 * factor, s1, s2)
              else if axis = Some ''y'' then (s0, s1 * factor, s2)
              else if axis = Some ''z'' then (s0, s1, s2 * factor)
              else if axis = Some ''uniform'' then (s0 * factor, s1 * factor, s2 * factor)
              else (s0, s1, s2))
        of (n0, n1, n2) \<Rightarrow> (py_max (1 / 10) n0, py_max (1 / 10) n1, py_max (1 / 10) n2))"

text \<open>\<^verbatim>\<open>handle_scale_drag\<close> (lines 5265--5299).\<close>

definition handle_scale_drag :: "VTKWidget \<Rightarrow> QPoint \<Rightarrow> VTKWidget" where
  "handle_scale_drag w mouse_pos =
     (if \<not> is_scaling w then w
      else case selected_actors (object_manager w) of
        [] \<Rightarrow> w
      | selected # rest \<Rightarrow>
          let m = object_manager w;
              scaled = new_scale (scale_axis w) (original_scale w)
                         (scale_factor (scale_start_point w) mouse_pos);
              m1 = m\<lparr>objects := (objects m)(selected := (objects m selected)\<lparr>Scale := scaled\<rparr>)\<rparr>;
              m2 = (case outline_actors m1 selected of
                      None \<Rightarrow> m1
                    | Some outline_actor \<Rightarrow>
                        m1\<lparr>outline_actors := (outline_actors m1)(selected \<mapsto>
                             outline_actor\<lparr>Scale := scaled\<rparr>)\<rparr>)
          in w\<lparr>object_manager := m2\<rparr>)"

section \<open>Notions used to state the properties\<close>

text \<open>An object's outline is visible when the object has an outline and that outline's
  visibility flag is on.\<close>

definition outline_visible :: "ObjectManager \<Rightarrow> actor_ref \<Rightarrow> bool" where
  "outline_visible m a = (case outline_actors m a of None \<Rightarrow> False | Some out \<Rightarrow> Visibility out)"

text \<open>One show/hide cycle of a gizmo on a target.\<close>

definition MoveGizmo_show_hide :: "actor_ref \<Rightarrow> Gizmo \<times> store \<Rightarrow> Gizmo \<times> store" where
  "MoveGizmo_show_hide target gs =
     (case MoveGizmo_show (fst gs) (snd gs) (Some target) of (g1, s1) \<Rightarrow> MoveGizmo_hide g1 s1)"

definition RotateGizmo_show_hide :: "actor_ref \<Rightarrow> Gizmo \<times> store \<Rightarrow> Gizmo \<times> store" where
  "RotateGizmo_show_hide target gs =
     (case RotateGizmo_show (fst gs) (snd gs) (Some target) of (g1, s1) \<Rightarrow> RotateGizmo_hide g1 s1)"

definition ScaleGizmo_show_hide :: "actor_ref \<Rightarrow> Gizmo \<times> store \<Rightarrow> Gizmo \<times> store" where
  "ScaleGizmo_show_hide target gs =
     (case ScaleGizmo_show (fst gs) (snd gs) (Some target) of (g1, s1) \<Rightarrow> ScaleGizmo_hide g1 s1)"

text \<open>The value \<^verbatim>\<open>f"{x:.2f}"\<close> stands for: \<open>x\<close> times 100 rounded to the nearest
  integer, ties to even, divided by 100, with the sign of \<open>x\<close>.\<close>

definition rounded_2f :: "real \<Rightarrow> real" where
  "rounded_2f x = (if x < 0 then - 1 else 1) * of_int (round_half_even (\<bar>x\<bar> * 100)) / 100"

text \<open>A scale vector respects the floor when each component is at least 0.1.\<close>

definition floored :: "vec3 \<Rightarrow> bool" where
  "floored v = (case v of (a, b, c) \<Rightarrow> 1 / 10 \<le> a \<and> 1 / 10 \<le> b \<and> 1 / 10 \<le> c)"

section \<open>Concrete scenes\<close>

text \<open>
  Views of an empty scene, 800 by 600, with the camera at \<open>(0, 0, 2)\<close> looking at the
  origin. Where no object is hit, \<^verbatim>\<open>vtkWorldPointPicker\<close> reports the point of the pick
  ray at the depth of the focal point. At the centre pixel \<open>(400, 300)\<close> the pick ray
  runs along the view direction and the picker reports the focal point \<open>(0, 0, 0)\<close>
  itself. At pixel \<open>(652, 300)\<close>, right of the centre, the pick ray runs from the camera
  through \<open>(9/20, 0, 0)\<close>, which the picker reports; \<^verbatim>\<open>DisplayToWorld\<close> gives the
  points of that ray at depths 0.1 and 40.1. The third view is the second in a renderer
  that has no size yet.
\<close>

definition centre_renderer :: vtkRenderer where
  "centre_renderer =
     \<lparr>GetSize = (800, 600),
      camera_GetPosition = (0, 0, 2),
      camera_GetFocalPoint = (0, 0, 0),
      WorldPointPicker_Pick = (\<lambda>x y. (0, 0, 0)),
      DisplayToWorld = (\<lambda>x y z. if z = 0 then (0, 0, 19 / 10, 1) else (0, 0, - (381 / 10), 1))\<rparr>"



text \<open>The gizmos as their constructors leave them (lines 1593--1617, 1761--1785,
  1900--1928), a fresh actor as \<^verbatim>\<open>finalize_object_creation\<close> sets it up, and a
  scene with two registered objects, 10 and 20, each with a hidden outline; object 10 sits
  at \<open>(1, 2, 3)\<close> with opacity 0.75. Object 30 is not registered. The read-back of
  Euler angles is the identity up to 90 degrees about X and \<open>(180 - x, y - 180, z + 180)\<close>
  beyond, as VTK reports \<open>(80, -180, 180)\<close> for an orientation set to
  \<open>(100, 0, 0)\<close>.\<close>

definition new_handle :: gizmo_handle where
  "new_handle = \<lparr>handle_Position = (0, 0, 0), in_renderer = False\<rparr>"

definition new_MoveGizmo :: Gizmo where
  "new_MoveGizmo =
     \<lparr>gizmo_actors = [(''x'', new_handle), (''y'', new_handle), (''z'', new_handle)],
      is_visible = False, selected_actor = None, original_opacities = Map.empty\<rparr>"

definition new_RotateGizmo :: Gizmo where
  "new_RotateGizmo =
     \<lparr>gizmo_actors = [(''x'', new_handle), (''y'', new_handle), (''z'', new_handle)],
      is_visible = False, selected_actor = None, original_opacities = Map.empty\<rparr>"

definition new_ScaleGizmo :: Gizmo where
  "new_ScaleGizmo =
     \<lparr>gizmo_actors = [(''x'', new_handle), (''y'', new_handle), (''z'', new_handle),
                      (''uniform'', new_handle)],
      is_visible = False, selected_actor = None, original_opacities = Map.empty\<rparr>"

definition new_actor :: vtkActor where
  "new_actor =
     \<lparr>Position = (0, 0, 0), Orientation = (0, 0, 0), Scale = (1, 1, 1), Opacity = 1,
      Visibility = True,
      mesh_bounds = (\<lambda>p orientation sc. case p of (x, y, z) \<Rightarrow>
                       (x - 1, x + 1, y - 1, y + 1, z - 1, z + 1)),
      camera_object = None\<rparr>"

definition two_object_scene :: ObjectManager where
  "two_object_scene =
     \<lparr>actors = [10, 20],
      selected_actors = [],
      outline_actors = [10 \<mapsto> new_actor\<lparr>Position := (1, 2, 3), Visibility := False\<rparr>,
                        20 \<mapsto> new_actor\<lparr>Visibility := False\<rparr>],
      move_gizmo = new_MoveGizmo,
      rotate_gizmo = new_RotateGizmo,
      scale_gizmo = new_ScaleGizmo,
      active_gizmo = None,
      objects = (\<lambda>a. if a = 10 then new_actor\<lparr>Position := (1, 2, 3), Opacity := 3 / 4\<rparr>
                      else new_actor),
      light_manager = None,
      euler_readback = (\<lambda>v. case v of (x, y, z) \<Rightarrow>
                          if 90 < x \<and> x \<le> 180 then (180 - x, y - 180, z + 180) else (x, y, z))\<rparr>"

text \<open>A widget with the constructor's radius and angles (lines 4545--4547) over the
  two-object scene with object 10 selected; the same widget in the middle of a scale
  drag on the X handle begun at pixel \<open>(0, 0)\<close>; and the widget in the middle of a rotate
  drag on the X ring begun at pixel \<open>(0, 0)\<close>, with object 10 already turned to
  \<open>(100, 0, 0)\<close>.\<close>

definition new_VTKWidget :: VTKWidget where
  "new_VTKWidget =
     \<lparr>object_manager = two_object_scene\<lparr>selected_actors := [10]\<rparr>,
      renderer_GetSize = (800, 600),
      camera = \<lparr>Camera_Position = (0, 0, 0), Camera_FocalPoint = (0, 0, 0),
                Camera_ViewUp = (0, 0, 1)\<rparr>,
      camera_radius = 15,
      camera_theta = pi / 4,
      camera_phi = pi / 4,
      rotation_pivot = (0, 0, 0),
      last_mouse_pos = (0, 0),
      is_rotating_view = False,
      is_rotating_object = False,
      rotate_axis = None,
      rotate_start_point = (0, 0),
      is_scaling = False,
      scale_axis = None,
      scale_start_point = (0, 0),
      original_scale = (1, 1, 1),
      updates_paused = Some False,
      float_near_pole = (\<lambda>theta. \<bar>theta\<bar> < 1 / 100 \<or> \<bar>theta - pi\<bar> \<le> 1 / 100)\<rparr>"

definition rotating_widget :: VTKWidget where
  "rotating_widget =
     new_VTKWidget\<lparr>object_manager :=
       (two_object_scene\<lparr>selected_actors := [10],
          objects := (objects two_object_scene)(10 :=
             (objects two_object_scene 10)\<lparr>Orientation := (100, 0, 0)\<rparr>)\<rparr>),
       is_rotating_object := True, rotate_axis := Some ''x''\<rparr>"

definition scaling_widget :: VTKWidget where
  "scaling_widget = new_VTKWidget\<lparr>is_scaling := True, scale_axis := Some ''x''\<rparr>"

text \<open>The widget with the scale gizmo shown on object 10, before a scale drag begins.\<close>

definition scale_tool_widget :: VTKWidget where
  "scale_tool_widget =
     new_VTKWidget\<lparr>object_manager :=
       (two_object_scene\<lparr>selected_actors := [10], active_gizmo := Some ''scale'',
                          scale_gizmo := new_ScaleGizmo\<lparr>is_visible := True,
                                                        selected_actor := Some 10\<rparr>\<rparr>)\<rparr>"

section \<open>The measurement tool: distance and label\<close>

lemma distance_commute: "distance p1 p2 = distance p2 p1"
  by (cases p1, cases p2) (simp add: distance_def power2_commute)

lemma distance_same_point: "distance p p = 0"
  by (cases p) (simp add: distance_def)

lemma distance_nonneg: "0 \<le> distance p1 p2"
  by (cases p1, cases p2) (simp add: distance_def)

lemma distance_squared:
  "(distance p1 p2)\<^sup>2 = (fst p2 - fst p1)\<^sup>2 + (fst (snd p2) - fst (snd p1))\<^sup>2
                          + (snd (snd p2) - snd (snd p1))\<^sup>2"
  by (cases p1, cases p2) (simp add: distance_def)

lemma distance_3_4_0: "distance (0, 0, 0) (3, 4, 0) = 5"
proof -
  have "sqrt (25::real) = sqrt (5\<^sup>2)" by simp
  then have "sqrt (25::real) = 5" by (simp only: real_sqrt_abs)
  then show ?thesis by (simp add: distance_def)
qed

lemma format_2f_5: "format_2f 5 = ''5.00''"
  by (simp add: format_2f_def round_half_even_def str_nat.simps digit_char_def Let_def)

lemma round_tie_down: "round_half_even (25 / 2) = 12"
  by (simp add: round_half_even_def Let_def)

lemma round_tie_up: "round_half_even (75 / 2) = 38"
  by (simp add: round_half_even_def Let_def)

lemma str_nat_0: "str_nat 0 = ''0''"
  by (subst str_nat.simps) (simp add: digit_char_def)

lemma format_2f_ties: "format_2f (1 / 8) = ''0.12''" "format_2f (3 / 8) = ''0.38''"
  by (simp_all add: format_2f_def Let_def round_tie_down round_tie_up str_nat_0 digit_char_def)

lemma digit_of_digit_char: "digit_of (digit_char n) = Some (n mod 10)"
proof -
  have "n mod 10 = 0 \<or> n mod 10 = 1 \<or> n mod 10 = 2 \<or> n mod 10 = 3 \<or> n mod 10 = 4
      \<or> n mod 10 = 5 \<or> n mod 10 = 6 \<or> n mod 10 = 7 \<or> n mod 10 = 8 \<or> n mod 10 = 9"
    by presburger
  then show ?thesis by (elim disjE) (simp_all add: digit_char_def digit_of_def)
qed

lemma digit_char_not_minus: "digit_char n \<noteq> CHR ''-''"
proof
  assume "digit_char n = CHR ''-''"
  then have "digit_of (digit_char n) = digit_of CHR ''-''" by simp
  then show False by (simp add: digit_of_digit_char) (simp add: digit_of_def)
qed

lemma read_digits_snoc:
  "read_digits acc (cs @ [c])
     = (case read_digits acc cs of
          None \<Rightarrow> None
        | Some v \<Rightarrow> map_option (\<lambda>d. 10 * v + d) (digit_of c))"
  by (induction cs arbitrary: acc) (auto split: option.splits)

lemma str_nat_nonempty: "str_nat n \<noteq> []"
  by (subst str_nat.simps) simp

lemma hd_str_nat_not_minus: "hd (str_nat n) \<noteq> CHR ''-''"
proof (induction n rule: str_nat.induct)
  case (1 n)
  show ?case
  proof (cases "n < 10")
    case True
    then show ?thesis by (subst str_nat.simps) (simp add: digit_char_not_minus)
  next
    case False
    then have "hd (str_nat n) = hd (str_nat (n div 10))"
      by (subst str_nat.simps) (simp add: str_nat_nonempty)
    with 1 False show ?thesis by simp
  qed
qed

lemma read_digits_str_nat: "read_digits 0 (str_nat n) = Some n"
proof (induction n rule: str_nat.induct)
  case (1 n)
  show ?case
  proof (cases "n < 10")
    case True
    then show ?thesis by (subst str_nat.simps) (simp add: digit_of_digit_char)
  next
    case False
    with 1 have "read_digits 0 (str_nat (n div 10)) = Some (n div 10)" by simp
    with False show ?thesis
      by (subst str_nat.simps) (simp add: read_digits_snoc digit_of_digit_char)
  qed
qed

lemma read_nat_str_nat: "read_nat (str_nat n) = Some n"
  by (simp add: read_nat_def str_nat_nonempty read_digits_str_nat)

lemma two_digits_value: "10 * (q div 10 mod 10) + q mod 10 = (q mod 100 :: nat)"
proof -
  have "q mod (10 * 10) = 10 * (q div 10 mod 10) + q mod 10" by (rule mod_mult2_eq)
  then show ?thesis by simp
qed

lemma read_nat_two_digits: "read_nat [digit_char (q div 10), digit_char q] = Some (q mod 100)"
proof -
  have "read_nat [digit_char (q div 10), digit_char q]
          = Some (10 * (q div 10 mod 10) + q mod 10)"
    by (simp add: read_nat_def digit_of_digit_char)
  then show ?thesis by (simp only: two_digits_value)
qed

lemma read_unsigned_2f_append:
  "a \<noteq> [] \<Longrightarrow> read_unsigned_2f (a @ ''.'' @ [d1, d2])
     = (case (read_nat a, read_nat [d1, d2]) of
          (Some whole, Some hundredths) \<Rightarrow> Some (of_nat whole + of_nat hundredths / 100)
        | _ \<Rightarrow> None)"
  by (simp add: read_unsigned_2f_def Let_def nth_append)

lemma read_unsigned_2f_shape:
  "read_unsigned_2f (str_nat (q div 100) @ ''.'' @ [digit_char (q div 10), digit_char q])
     = Some (of_nat q / 100)"
proof -
  have "(of_nat (q div 100) :: real) + of_nat (q mod 100) / 100 = of_nat q / 100"
  proof -
    have "q = 100 * (q div 100) + q mod 100" by simp
    then have "(of_nat q :: real) = 100 * of_nat (q div 100) + of_nat (q mod 100)"
      by (metis of_nat_add of_nat_mult of_nat_numeral)
    then show ?thesis by simp
  qed
  then show ?thesis
    by (simp only: read_unsigned_2f_append [OF str_nat_nonempty] read_nat_str_nat
          read_nat_two_digits prod.case option.case)
qed

lemma round_half_even_near: "\<bar>of_int (round_half_even y) - y\<bar> \<le> 1 / 2"
proof -
  have a: "of_int \<lfloor>y\<rfloor> \<le> y" and b: "y < of_int \<lfloor>y\<rfloor> + 1" by linarith+
  show ?thesis
    unfolding round_half_even_def Let_def
    using a b by (simp split: if_splits)
qed

lemma round_half_even_nonneg: "0 \<le> y \<Longrightarrow> 0 \<le> round_half_even y"
  unfolding round_half_even_def Let_def by auto

lemma decimal_value_format_2f: "decimal_value (format_2f x) = Some (rounded_2f x)"
proof -
  define q where "q = nat (round_half_even (\<bar>x\<bar> * 100))"
  let ?body = "str_nat (q div 100) @ ''.'' @ [digit_char (q div 10), digit_char q]"
  have qv: "(of_nat q :: real) = of_int (round_half_even (\<bar>x\<bar> * 100))"
    using round_half_even_nonneg [of "\<bar>x\<bar> * 100"] by (simp add: q_def)
  have body: "read_unsigned_2f ?body = Some (of_nat q / 100)" by (rule read_unsigned_2f_shape)
  show ?thesis
  proof (cases "x < 0")
    case True
    then have "format_2f x = CHR ''-'' # ?body" by (simp add: format_2f_def Let_def q_def)
    then show ?thesis using True body by (simp add: decimal_value_def rounded_2f_def qv)
  next
    case False
    then have f: "format_2f x = ?body" by (simp add: format_2f_def Let_def q_def)
    obtain c cs where cs: "str_nat (q div 100) = c # cs"
      using str_nat_nonempty [of "q div 100"] by (cases "str_nat (q div 100)") auto
    then have "c \<noteq> CHR ''-''" using hd_str_nat_not_minus [of "q div 100"] by simp
    then have "decimal_value ?body = read_unsigned_2f ?body"
      by (simp add: decimal_value_def cs)
    then show ?thesis using False body by (simp add: f rounded_2f_def qv)
  qed
qed

lemma rounded_2f_near: "\<bar>rounded_2f x - x\<bar> \<le> 1 / 200"
proof -
  define r where "r = (of_int (round_half_even (\<bar>x\<bar> * 100)) :: real)"
  have "\<bar>r - \<bar>x\<bar> * 100\<bar> \<le> 1 / 2"
    unfolding r_def by (rule round_half_even_near)
  then have n: "- (1 / 2) \<le> r - \<bar>x\<bar> * 100" "r - \<bar>x\<bar> * 100 \<le> 1 / 2"
    by linarith+
  have v: "rounded_2f x = (if x < 0 then - (r / 100) else r / 100)"
    by (simp add: rounded_2f_def r_def)
  show ?thesis
  proof (cases "x < 0")
    case True
    then have "rounded_2f x = - (r / 100)" by (simp add: v)
    then show ?thesis using True n by linarith
  next
    case False
    then have "rounded_2f x = r / 100" by (simp add: v)
    then show ?thesis using False n by linarith
  qed
qed

lemma create_distance_text_result:
  "create_distance_text tool p1 p2
     = (TextFollower (format_2f (distance p1 p2))
          (case p1 of (x1, y1, z1) \<Rightarrow> case p2 of (x2, y2, z2) \<Rightarrow>
             ((x1 + x2) / 2, (y1 + y2) / 2, (z1 + z2) / 2)),
        tool\<lparr>measure_actors := measure_actors tool
           @ [TextFollower (format_2f (distance p1 p2))
                (case p1 of (x1, y1, z1) \<Rightarrow> case p2 of (x2, y2, z2) \<Rightarrow>
                   ((x1 + x2) / 2, (y1 + y2) / 2, (z1 + z2) / 2))]\<rparr>)"
  by (cases p1, cases p2)
     (simp add: create_distance_text_def create_distance_text_at_position_def Let_def)

text \<open>
  C10. The distance the measurement tool reports is the Euclidean norm of the difference
  of the two points (non-negative, with the sum of the squared coordinate differences as
  its square): it is symmetric and it is zero between a point and itself. The label that
  \<^verbatim>\<open>create_distance_text\<close> makes is appended to the tool's markers at the midpoint of
  the two points, and its text is this distance with two decimals: read back as a
  decimal numeral it is the distance times 100, rounded to the nearest integer (ties to
  even) and divided by 100, hence within 0.005 of the distance. For the points
  \<open>(0, 0, 0)\<close> and \<open>(3, 4, 0)\<close> the label reads \<open>5.00\<close>; the values 0.125 and 0.375 print
  as \<open>0.12\<close> and \<open>0.38\<close>.
\<close>

theorem measurement_distance_and_label:
  "distance p1 p2 = distance p2 p1
   \<and> distance p p = 0
   \<and> 0 \<le> distance p1 p2
   \<and> (distance p1 p2)\<^sup>2 = (fst p2 - fst p1)\<^sup>2 + (fst (snd p2) - fst (snd p1))\<^sup>2
                             + (snd (snd p2) - snd (snd p1))\<^sup>2
   \<and> (\<exists>label_text. create_distance_text tool p1 p2
         = (TextFollower label_text
              (case p1 of (x1, y1, z1) \<Rightarrow> case p2 of (x2, y2, z2) \<Rightarrow>
                 ((x1 + x2) / 2, (y1 + y2) / 2, (z1 + z2) / 2)),
            tool\<lparr>measure_actors := measure_actors tool
               @ [TextFollower label_text
                    (case p1 of (x1, y1, z1) \<Rightarrow> case p2 of (x2, y2, z2) \<Rightarrow>
                       ((x1 + x2) / 2, (y1 + y2) / 2, (z1 + z2) / 2))]\<rparr>)
       \<and> decimal_value label_text
           = Some (of_int (round_half_even (distance p1 p2 * 100)) / 100)
       \<and> (\<forall>v. decimal_value label_text = Some v \<longrightarrow> \<bar>v - distance p1 p2\<bar> \<le> 1 / 200))
   \<and> decimal_value (format_2f x) = Some (rounded_2f x)
   \<and> \<bar>rounded_2f x - x\<bar> \<le> 1 / 200
   \<and> fst (create_distance_text tool (0, 0, 0) (3, 4, 0)) = TextFollower ''5.00'' (3 / 2, 2, 0)
   \<and> format_2f (1 / 8) = ''0.12''
   \<and> format_2f (3 / 8) = ''0.38''"
proof (intro conjI)
  show "distance p1 p2 = distance p2 p1" by (rule distance_commute)
  show "distance p p = 0" by (rule distance_same_point)
  show "0 \<le> distance p1 p2" by (rule distance_nonneg)
  show "(distance p1 p2)\<^sup>2 = (fst p2 - fst p1)\<^sup>2 + (fst (snd p2) - fst (snd p1))\<^sup>2
                             + (snd (snd p2) - snd (snd p1))\<^sup>2"
    by (rule distance_squared)
  show "decimal_value (format_2f x) = Some (rounded_2f x)" by (rule decimal_value_format_2f)
  show "\<bar>rounded_2f x - x\<bar> \<le> 1 / 200" by (rule rounded_2f_near)
  show "fst (create_distance_text tool (0, 0, 0) (3, 4, 0)) = TextFollower ''5.00'' (3 / 2, 2, 0)"
    by (simp add: create_distance_text_result distance_3_4_0 format_2f_5)
  show "format_2f (1 / 8) = ''0.12''" by (rule format_2f_ties)
  show "format_2f (3 / 8) = ''0.38''" by (rule format_2f_ties)
  show "\<exists>label_text. create_distance_text tool p1 p2
         = (TextFollower label_text
              (case p1 of (x1, y1, z1) \<Rightarrow> case p2 of (x2, y2, z2) \<Rightarrow>
                 ((x1 + x2) / 2, (y1 + y2) / 2, (z1 + z2) / 2)),
            tool\<lparr>measure_actors := measure_actors tool
               @ [TextFollower label_text
                    (case p1 of (x1, y1, z1) \<Rightarrow> case p2 of (x2, y2, z2) \<Rightarrow>
                       ((x1 + x2) / 2, (y1 + y2) / 2, (z1 + z2) / 2))]\<rparr>)
       \<and> decimal_value label_text
           = Some (of_int (round_half_even (distance p1 p2 * 100)) / 100)
       \<and> (\<forall>v. decimal_value label_text = Some v \<longrightarrow> \<bar>v - distance p1 p2\<bar> \<le> 1 / 200)"
  proof -
    let ?d = "distance p1 p2"
    have r: "rounded_2f ?d = of_int (round_half_even (?d * 100)) / 100"
      using distance_nonneg [of p1 p2] by (simp add: rounded_2f_def)
    have dv: "decimal_value (format_2f ?d) = Some (of_int (round_half_even (?d * 100)) / 100)"
      using decimal_value_format_2f [of ?d] r by simp
    have near: "\<bar>of_int (round_half_even (?d * 100)) / 100 - ?d\<bar> \<le> 1 / 200"
      using rounded_2f_near [of ?d] r by simp
    show ?thesis
      using create_distance_text_result [of tool p1 p2] dv near by auto
  qed
qed

text \<open>For the points \<open>(0, 0, 0)\<close> and \<open>(3, 4, 0)\<close>: the distance is 5, the label
  \<open>5.00\<close> stands at the midpoint and is the one marker added to an empty tool.\<close>

theorem measurement_distance_and_label_witness:
  "distance (0, 0, 0) (3, 4, 0) = 5
   \<and> create_distance_text \<lparr>points = [(0, 0, 0), (3, 4, 0)], measure_actors = []\<rparr> (0, 0, 0) (3, 4, 0)
       = (TextFollower ''5.00'' (3 / 2, 2, 0),
          \<lparr>points = [(0, 0, 0), (3, 4, 0)],
           measure_actors = [TextFollower ''5.00'' (3 / 2, 2, 0)]\<rparr>)
   \<and> decimal_value ''5.00'' = Some 5"
proof -
  let ?tool = "\<lparr>points = [(0, 0, 0), (3, 4, 0)], measure_actors = []\<rparr>"
  have c: "create_distance_text ?tool (0, 0, 0) (3, 4, 0)
       = (TextFollower ''5.00'' (3 / 2, 2, 0),
          \<lparr>points = [(0, 0, 0), (3, 4, 0)],
           measure_actors = [TextFollower ''5.00'' (3 / 2, 2, 0)]\<rparr>)"
    by (simp add: create_distance_text_result distance_3_4_0 format_2f_5)
  have r: "rounded_2f 5 = 5" by (simp add: rounded_2f_def round_half_even_def Let_def)
  have "decimal_value (format_2f 5) = Some (rounded_2f 5)"
    using measurement_distance_and_label [of _ _ _ ?tool 5] by blast
  then have "decimal_value ''5.00'' = Some 5" by (simp add: format_2f_5 r)
  then show ?thesis using c distance_3_4_0 by simp
qed

section \<open>The world-point pick\<close>

lemma tuple_ne_list: "py_ne (PyTuple xs) (PyList ys)"
  by (simp add: py_ne_def)

lemma GetPickPosition_ne_list: "py_ne (GetPickPosition renderer x y) (PyList ys)"
  by (simp add: GetPickPosition_def tuple_ne_list split: prod.splits)


text \<open>
  C2. Whenever the renderer size is nonzero, the guard
  \<^verbatim>\<open>picker.GetPickPosition() != [0, 0, 0]\<close> compares a tuple with a list and holds,
  so \<^verbatim>\<open>get_world_position_from_mouse\<close> returns the picker's position for every
  input: the plane-intersection code after the guard is not reached, and the result
  is never \<^verbatim>\<open>None\<close>.
\<close>

theorem pick_returns_picker_position:
  assumes "fst (GetSize renderer) \<noteq> 0" and "snd (GetSize renderer) \<noteq> 0"
  shows "py_ne (GetPickPosition renderer mouse_x (snd (GetSize renderer) - mouse_y)) (PyList [0, 0, 0])
    \<and> get_world_position_from_mouse renderer mouse_x mouse_y
        = Inr (Some (GetPickPosition renderer mouse_x (snd (GetSize renderer) - mouse_y)))
    \<and> get_world_position_from_mouse renderer mouse_x mouse_y \<noteq> Inr None"
  using assms
  by (simp add: get_world_position_from_mouse_def Let_def GetPickPosition_ne_list)

text \<open>At the centre pixel of the empty scene the picker reports \<open>(0, 0, 0)\<close>, the very
  value the guard compares with, and the pick still returns it.\<close>

theorem pick_returns_picker_position_witness:
  "fst (GetSize centre_renderer) \<noteq> 0 \<and> snd (GetSize centre_renderer) \<noteq> 0
   \<and> get_world_position_from_mouse centre_renderer 400 300 = Inr (Some (PyTuple [0, 0, 0]))"
proof -
  have w: "fst (GetSize centre_renderer) \<noteq> 0" and h: "snd (GetSize centre_renderer) \<noteq> 0"
    by (simp_all add: centre_renderer_def)
  have "GetPickPosition centre_renderer 400 (snd (GetSize centre_renderer) - 300) = PyTuple [0, 0, 0]"
    by (simp add: GetPickPosition_def centre_renderer_def)
  then show ?thesis
    using w h pick_returns_picker_position [OF w h, of 400 300] by simp
qed












section \<open>Gizmo show and hide\<close>

lemma gizmo_show_records:
  "original_opacities (fst (gizmo_show d g s (Some t))) t = Some (Opacity (s t))"
  by (simp add: gizmo_show_def Let_def)

lemma gizmo_show_dims: "Opacity (snd (gizmo_show d g s (Some t)) t) = d"
  by (simp add: gizmo_show_def Let_def)

lemma gizmo_cycle_opacity:
  "Opacity (snd (case gizmo_show d g s (Some t) of (g1, s1) \<Rightarrow> gizmo_hide g1 s1) t) = Opacity (s t)"
  by (simp add: gizmo_show_def gizmo_hide_def Let_def)

lemma gizmo_cycle_table:
  "original_opacities (fst (case gizmo_show d g s (Some t) of (g1, s1) \<Rightarrow> gizmo_hide g1 s1))
     = Map.empty"
  by (simp add: gizmo_show_def gizmo_hide_def Let_def)

lemma cycles_opacity:
  fixes c :: "Gizmo \<times> store \<Rightarrow> Gizmo \<times> store"
  assumes step: "\<And>g s. Opacity (snd (c (g, s)) t) = Opacity (s t)"
  shows "Opacity (snd ((c ^^ n) (g, s)) t) = Opacity (s t)"
proof (induction n)
  case 0
  show ?case by simp
next
  case (Suc n)
  obtain g' s' where gs: "(c ^^ n) (g, s) = (g', s')" by (cases "(c ^^ n) (g, s)")
  with Suc have "Opacity (s' t) = Opacity (s t)" by simp
  then show ?case by (simp add: gs step)
qed

lemma cycles_table:
  fixes c :: "Gizmo \<times> store \<Rightarrow> Gizmo \<times> store"
  assumes step: "\<And>g s. original_opacities (fst (c (g, s))) = Map.empty"
  shows "original_opacities (fst ((c ^^ Suc n) (g, s))) = Map.empty"
proof -
  obtain g' s' where gs: "(c ^^ n) (g, s) = (g', s')" by (cases "(c ^^ n) (g, s)")
  show ?thesis by (simp add: gs step)
qed

lemma Move_cycle:
  "Opacity (snd (MoveGizmo_show_hide t (g, s)) t) = Opacity (s t)"
  "original_opacities (fst (MoveGizmo_show_hide t (g, s))) = Map.empty"
  by (simp_all add: MoveGizmo_show_hide_def MoveGizmo_show_def MoveGizmo_hide_def
        gizmo_cycle_opacity gizmo_cycle_table)

lemma Rotate_cycle:
  "Opacity (snd (RotateGizmo_show_hide t (g, s)) t) = Opacity (s t)"
  "original_opacities (fst (RotateGizmo_show_hide t (g, s))) = Map.empty"
  by (simp_all add: RotateGizmo_show_hide_def RotateGizmo_show_def RotateGizmo_hide_def
        gizmo_cycle_opacity gizmo_cycle_table)

lemma Scale_cycle:
  "Opacity (snd (ScaleGizmo_show_hide t (g, s)) t) = Opacity (s t)"
  "original_opacities (fst (ScaleGizmo_show_hide t (g, s))) = Map.empty"
  by (simp_all add: ScaleGizmo_show_hide_def ScaleGizmo_show_def ScaleGizmo_hide_def
        gizmo_cycle_opacity gizmo_cycle_table)

text \<open>
  C4. For each of the Move, Rotate and Scale gizmos, for every gizmo state, every store,
  every target and every starting opacity: \<^verbatim>\<open>show(target)\<close> records the target's
  current opacity under the target's own key, and a following \<^verbatim>\<open>hide()\<close> restores
  exactly that value and leaves the restore table empty; the same holds after any number
  of show/hide cycles.
\<close>

theorem gizmo_show_hide_restores_opacity:
  "(original_opacities (fst (MoveGizmo_show g s (Some target))) target = Some (Opacity (s target))
    \<and> Opacity (snd (MoveGizmo_show_hide target (g, s)) target) = Opacity (s target)
    \<and> original_opacities (fst (MoveGizmo_show_hide target (g, s))) = Map.empty
    \<and> Opacity (snd ((MoveGizmo_show_hide target ^^ n) (g, s)) target) = Opacity (s target)
    \<and> original_opacities (fst ((MoveGizmo_show_hide target ^^ Suc n) (g, s))) = Map.empty)
   \<and> (original_opacities (fst (RotateGizmo_show g s (Some target))) target = Some (Opacity (s target))
    \<and> Opacity (snd (RotateGizmo_show_hide target (g, s)) target) = Opacity (s target)
    \<and> original_opacities (fst (RotateGizmo_show_hide target (g, s))) = Map.empty
    \<and> Opacity (snd ((RotateGizmo_show_hide target ^^ n) (g, s)) target) = Opacity (s target)
    \<and> original_opacities (fst ((RotateGizmo_show_hide target ^^ Suc n) (g, s))) = Map.empty)
   \<and> (original_opacities (fst (ScaleGizmo_show g s (Some target))) target = Some (Opacity (s target))
    \<and> Opacity (snd (ScaleGizmo_show_hide target (g, s)) target) = Opacity (s target)
    \<and> original_opacities (fst (ScaleGizmo_show_hide target (g, s))) = Map.empty
    \<and> Opacity (snd ((ScaleGizmo_show_hide target ^^ n) (g, s)) target) = Opacity (s target)
    \<and> original_opacities (fst ((ScaleGizmo_show_hide target ^^ Suc n) (g, s))) = Map.empty)"
proof (intro conjI)
  show "original_opacities (fst (MoveGizmo_show g s (Some target))) target = Some (Opacity (s target))"
    by (simp add: MoveGizmo_show_def gizmo_show_records)
  show "original_opacities (fst (RotateGizmo_show g s (Some target))) target = Some (Opacity (s target))"
    by (simp add: RotateGizmo_show_def gizmo_show_records)
  show "original_opacities (fst (ScaleGizmo_show g s (Some target))) target = Some (Opacity (s target))"
    by (simp add: ScaleGizmo_show_def gizmo_show_records)
  show "Opacity (snd (MoveGizmo_show_hide target (g, s)) target) = Opacity (s target)"
    by (rule Move_cycle)
  show "original_opacities (fst (MoveGizmo_show_hide target (g, s))) = Map.empty"
    by (rule Move_cycle)
  show "Opacity (snd ((MoveGizmo_show_hide target ^^ n) (g, s)) target) = Opacity (s target)"
    by (rule cycles_opacity) (rule Move_cycle)
  show "original_opacities (fst ((MoveGizmo_show_hide target ^^ Suc n) (g, s))) = Map.empty"
    by (rule cycles_table) (rule Move_cycle)
  show "Opacity (snd (RotateGizmo_show_hide target (g, s)) target) = Opacity (s target)"
    by (rule Rotate_cycle)
  show "original_opacities (fst (RotateGizmo_show_hide target (g, s))) = Map.empty"
    by (rule Rotate_cycle)
  show "Opacity (snd ((RotateGizmo_show_hide target ^^ n) (g, s)) target) = Opacity (s target)"
    by (rule cycles_opacity) (rule Rotate_cycle)
  show "original_opacities (fst ((RotateGizmo_show_hide target ^^ Suc n) (g, s))) = Map.empty"
    by (rule cycles_table) (rule Rotate_cycle)
  show "Opacity (snd (ScaleGizmo_show_hide target (g, s)) target) = Opacity (s target)"
    by (rule Scale_cycle)
  show "original_opacities (fst (ScaleGizmo_show_hide target (g, s))) = Map.empty"
    by (rule Scale_cycle)
  show "Opacity (snd ((ScaleGizmo_show_hide target ^^ n) (g, s)) target) = Opacity (s target)"
    by (rule cycles_opacity) (rule Scale_cycle)
  show "original_opacities (fst ((ScaleGizmo_show_hide target ^^ Suc n) (g, s))) = Map.empty"
    by (rule cycles_table) (rule Scale_cycle)
qed

text \<open>On object 10 of the two-object scene (opacity 0.75): shown, it is dimmed to 0.3
  (Move), 0.2 (Rotate), 0.3 (Scale); hidden again, it is back at 0.75.\<close>

theorem gizmo_show_hide_restores_opacity_witness:
  "Opacity (snd (MoveGizmo_show new_MoveGizmo (objects two_object_scene) (Some 10)) 10) = 3 / 10
   \<and> Opacity (snd (RotateGizmo_show new_RotateGizmo (objects two_object_scene) (Some 10)) 10) = 2 / 10
   \<and> Opacity (snd (ScaleGizmo_show new_ScaleGizmo (objects two_object_scene) (Some 10)) 10) = 3 / 10
   \<and> Opacity (snd (MoveGizmo_show_hide 10 (new_MoveGizmo, objects two_object_scene)) 10) = 3 / 4
   \<and> Opacity (snd (RotateGizmo_show_hide 10 (new_RotateGizmo, objects two_object_scene)) 10) = 3 / 4
   \<and> Opacity (snd (ScaleGizmo_show_hide 10 (new_ScaleGizmo, objects two_object_scene)) 10) = 3 / 4"
proof -
  have o: "Opacity (objects two_object_scene 10) = 3 / 4"
    by (simp add: two_object_scene_def)
  have m: "Opacity (snd (MoveGizmo_show_hide 10 (new_MoveGizmo, objects two_object_scene)) 10)
             = Opacity (objects two_object_scene 10)"
    using gizmo_show_hide_restores_opacity [of new_MoveGizmo "objects two_object_scene" 10 0]
    by blast
  have r: "Opacity (snd (RotateGizmo_show_hide 10 (new_RotateGizmo, objects two_object_scene)) 10)
             = Opacity (objects two_object_scene 10)"
    using gizmo_show_hide_restores_opacity [of new_RotateGizmo "objects two_object_scene" 10 0]
    by blast
  have c: "Opacity (snd (ScaleGizmo_show_hide 10 (new_ScaleGizmo, objects two_object_scene)) 10)
             = Opacity (objects two_object_scene 10)"
    using gizmo_show_hide_restores_opacity [of new_ScaleGizmo "objects two_object_scene" 10 0]
    by blast
  show ?thesis
    by (simp add: m r c o MoveGizmo_show_def RotateGizmo_show_def ScaleGizmo_show_def
          gizmo_show_dims)
qed

section \<open>The camera orbit\<close>

lemma clamp_polar:
  "1 / 100 \<le> py_max (1 / 100) (py_min (pi - 1 / 100) x)
   \<and> py_max (1 / 100) (py_min (pi - 1 / 100) x) \<le> pi - 1 / 100"
  using pi_ge_two by (simp add: py_max_def py_min_def)

lemma view_drag_theta:
  "1 / 100 \<le> camera_theta (view_drag w pos False)
   \<and> camera_theta (view_drag w pos False) \<le> pi - 1 / 100"
  using clamp_polar
  by (simp add: view_drag_def orbit_def update_camera_position_def Let_def split: prod.splits)

lemma orbit_sequence_theta:
  "1 / 100 \<le> camera_theta (foldl (\<lambda>v p. view_drag v p False) (view_drag w pos False) later)
   \<and> camera_theta (foldl (\<lambda>v p. view_drag v p False) (view_drag w pos False) later) \<le> pi - 1 / 100"
proof (induction later rule: rev_induct)
  case Nil
  show ?case using view_drag_theta by simp
next
  case (snoc p ps)
  show ?case using view_drag_theta by simp
qed

text \<open>
  C7. After every camera orbit step the polar angle lies in the closed interval
  \<open>[0.01, \<pi> - 0.01]\<close>, hence strictly within \<open>(0, \<pi>)\<close>, whatever the pixel delta;
  and so it does after every further sequence of orbit steps.
\<close>

theorem orbit_polar_angle_in_range:
  "1 / 100 \<le> camera_theta (view_drag w pos False)
   \<and> camera_theta (view_drag w pos False) \<le> pi - 1 / 100
   \<and> 0 < camera_theta (view_drag w pos False)
   \<and> camera_theta (view_drag w pos False) < pi
   \<and> 0 < camera_theta (foldl (\<lambda>v p. view_drag v p False) (view_drag w pos False) later)
   \<and> camera_theta (foldl (\<lambda>v p. view_drag v p False) (view_drag w pos False) later) < pi"
proof -
  have a: "1 / 100 \<le> camera_theta (view_drag w pos False)"
    and b: "camera_theta (view_drag w pos False) \<le> pi - 1 / 100"
    using view_drag_theta [of w pos] by simp_all
  have c: "1 / 100 \<le> camera_theta (foldl (\<lambda>v p. view_drag v p False) (view_drag w pos False) later)"
    and d: "camera_theta (foldl (\<lambda>v p. view_drag v p False) (view_drag w pos False) later) \<le> pi - 1 / 100"
    using orbit_sequence_theta [of w pos later] by simp_all
  show ?thesis using a b c d by simp
qed

text \<open>From the default polar angle \<open>\<pi>/4\<close>, a drag of a million pixels upwards stops at
  \<open>\<pi> - 0.01\<close>, and one of a million pixels downwards at \<open>0.01\<close>.\<close>

theorem orbit_polar_angle_in_range_witness:
  "camera_theta (view_drag new_VTKWidget (0, - 1000000) False) = pi - 1 / 100
   \<and> camera_theta (view_drag new_VTKWidget (0, 1000000) False) = 1 / 100
   \<and> camera_theta (view_drag new_VTKWidget (0, - 1000000) False) < pi"
proof -
  have t: "camera_theta new_VTKWidget = pi / 4" and l: "last_mouse_pos new_VTKWidget = (0, 0)"
    by (simp_all add: new_VTKWidget_def)
  have up: "camera_theta (view_drag new_VTKWidget (0, - 1000000) False) = pi - 1 / 100"
    using pi_ge_two pi_less_4
    by (simp add: view_drag_def orbit_def update_camera_position_def Let_def t l py_max_def
          py_min_def split: prod.splits)
  have down: "camera_theta (view_drag new_VTKWidget (0, 1000000) False) = 1 / 100"
    using pi_ge_two pi_less_4
    by (simp add: view_drag_def orbit_def update_camera_position_def Let_def t l py_max_def
          py_min_def split: prod.splits)
  show ?thesis
    using up down orbit_polar_angle_in_range [of new_VTKWidget "(0, - 1000000)" "[]"] by simp
qed

section \<open>Scale drags\<close>

lemma new_scale_floored: "floored (new_scale axis orig factor)"
  by (cases orig) (simp add: new_scale_def floored_def py_max_def)

lemma scale_drag_object:
  assumes "is_scaling w" and "selected_actors (object_manager w) = selected # rest"
  shows "Scale (objects (object_manager (handle_scale_drag w mouse_pos)) selected)
           = new_scale (scale_axis w) (original_scale w)
               (scale_factor (scale_start_point w) mouse_pos)"
  using assms by (simp add: handle_scale_drag_def Let_def split: option.splits)

lemma scale_drag_outline:
  assumes "is_scaling w" and "selected_actors (object_manager w) = selected # rest"
    and "outline_actors (object_manager (handle_scale_drag w mouse_pos)) selected = Some out"
  shows "Scale out = new_scale (scale_axis w) (original_scale w)
                       (scale_factor (scale_start_point w) mouse_pos)"
  using assms by (auto simp add: handle_scale_drag_def Let_def split: option.splits)

lemma scale_drag_keeps:
  "is_scaling (handle_scale_drag w p) = is_scaling w"
  "scale_axis (handle_scale_drag w p) = scale_axis w"
  "scale_start_point (handle_scale_drag w p) = scale_start_point w"
  "original_scale (handle_scale_drag w p) = original_scale w"
  "selected_actors (object_manager (handle_scale_drag w p)) = selected_actors (object_manager w)"
  by (simp_all add: handle_scale_drag_def Let_def split: list.splits option.splits)

lemma scale_drags_keep:
  "is_scaling (foldl handle_scale_drag w ps) = is_scaling w
   \<and> scale_axis (foldl handle_scale_drag w ps) = scale_axis w
   \<and> scale_start_point (foldl handle_scale_drag w ps) = scale_start_point w
   \<and> original_scale (foldl handle_scale_drag w ps) = original_scale w
   \<and> selected_actors (object_manager (foldl handle_scale_drag w ps))
       = selected_actors (object_manager w)"
  by (induction ps arbitrary: w) (simp_all add: scale_drag_keeps)

lemma scale_start_records:
  assumes "fst (renderer_GetSize w) \<noteq> 0" and "snd (renderer_GetSize w) \<noteq> 0"
    and "get_axis_at_position (scale_gizmo (object_manager w)) handle_pick = Some axis"
    and "axis \<noteq> []"
    and "selected_actors (object_manager w) = selected # rest"
  shows "is_scaling (handle_scale_start w start handle_pick prop_pick)"
    and "scale_axis (handle_scale_start w start handle_pick prop_pick) = Some axis"
    and "scale_start_point (handle_scale_start w start handle_pick prop_pick) = start"
    and "original_scale (handle_scale_start w start handle_pick prop_pick)
           = Scale (objects (object_manager w) selected)"
    and "selected_actors (object_manager (handle_scale_start w start handle_pick prop_pick))
           = selected # rest"
  using assms by (simp_all add: handle_scale_start_def Let_def truthy_def)

text \<open>
  C5. Whatever the pointer position of a scale drag, also with arbitrarily large
  negative horizontal deltas, every component of the scale vector that the drag sets on
  the selected object (and on its outline) is at least the floor 0.1.
\<close>

theorem scale_drag_keeps_floor:
  assumes "is_scaling w" and "selected_actors (object_manager w) = selected # rest"
  shows "floored (Scale (objects (object_manager (handle_scale_drag w mouse_pos)) selected))
    \<and> (\<forall>out. outline_actors (object_manager (handle_scale_drag w mouse_pos)) selected = Some out
              \<longrightarrow> floored (Scale out))"
  using assms
  by (simp add: scale_drag_object scale_drag_outline [OF assms] new_scale_floored)

lemma scaling_widget_state:
  "is_scaling scaling_widget"
  "selected_actors (object_manager scaling_widget) = [10]"
  "scale_axis scaling_widget = Some ''x''"
  "original_scale scaling_widget = (1, 1, 1)"
  "scale_start_point scaling_widget = (0, 0)"
  by (simp_all add: scaling_widget_def new_VTKWidget_def)

theorem scale_drag_keeps_floor_witness:
  "is_scaling scaling_widget
   \<and> selected_actors (object_manager scaling_widget) = [10]
   \<and> scale_factor (scale_start_point scaling_widget) (- 1000000, 0) = - 9999
   \<and> Scale (objects (object_manager (handle_scale_drag scaling_widget (- 1000000, 0))) 10)
       = (1 / 10, 1, 1)
   \<and> floored (Scale (objects (object_manager (handle_scale_drag scaling_widget (- 1000000, 0))) 10))"
proof -
  have f: "scale_factor (scale_start_point scaling_widget) (- 1000000, 0) = - 9999"
    by (simp add: scaling_widget_state scale_factor_def)
  have s: "Scale (objects (object_manager (handle_scale_drag scaling_widget (- 1000000, 0))) 10)
             = (1 / 10, 1, 1)"
    using scaling_widget_state f
    by (simp add: scale_drag_object [of scaling_widget 10 "[]"] new_scale_def py_max_def)
  show ?thesis
    using scaling_widget_state f s
      scale_drag_keeps_floor [of scaling_widget 10 "[]" "(- 1000000, 0)"]
    by simp
qed

text \<open>
  C6 (as the code has it). A scale drag begun on a handle records the pointer position
  and the selected object's scale. Every later drag event, whatever events came before
  it, sets the object's scale from that recorded scale and from
  \<open>factor = 1 + 0.01 \<times> (x - x\<^sub>s\<^sub>t\<^sub>a\<^sub>r\<^sub>t)\<close> alone: each dragged component becomes
  \<open>max(0.1, recorded \<times> factor)\<close> (all three for the uniform handle) and each other
  component \<open>max(0.1, recorded)\<close>. So two events at the same pointer position give the
  same scale as one.
\<close>

theorem scale_drag_from_start:
  assumes "fst (renderer_GetSize w) \<noteq> 0" and "snd (renderer_GetSize w) \<noteq> 0"
    and "get_axis_at_position (scale_gizmo (object_manager w)) handle_pick = Some axis"
    and "axis \<noteq> []"
    and "selected_actors (object_manager w) = selected # rest"
  shows "Scale (objects (object_manager
            (foldl handle_scale_drag (handle_scale_start w start handle_pick prop_pick)
               (earlier @ [mouse_pos]))) selected)
          = new_scale (Some axis) (Scale (objects (object_manager w) selected))
              (scale_factor start mouse_pos)
    \<and> scale_factor start mouse_pos = 1 + of_int (fst mouse_pos - fst start) * (1 / 100)
    \<and> new_scale (Some ''x'') (s0, s1, s2) f
        = (py_max (1 / 10) (s0 * f), py_max (1 / 10) s1, py_max (1 / 10) s2)
    \<and> new_scale (Some ''y'') (s0, s1, s2) f
        = (py_max (1 / 10) s0, py_max (1 / 10) (s1 * f), py_max (1 / 10) s2)
    \<and> new_scale (Some ''z'') (s0, s1, s2) f
        = (py_max (1 / 10) s0, py_max (1 / 10) s1, py_max (1 / 10) (s2 * f))
    \<and> new_scale (Some ''uniform'') (s0, s1, s2) f
        = (py_max (1 / 10) (s0 * f), py_max (1 / 10) (s1 * f), py_max (1 / 10) (s2 * f))
    \<and> handle_scale_drag (handle_scale_drag w' mouse_pos) mouse_pos = handle_scale_drag w' mouse_pos"
proof (intro conjI)
  let ?w0 = "handle_scale_start w start handle_pick prop_pick"
  let ?w1 = "foldl handle_scale_drag ?w0 earlier"
  have keep: "is_scaling ?w1" "scale_axis ?w1 = Some axis" "scale_start_point ?w1 = start"
    "original_scale ?w1 = Scale (objects (object_manager w) selected)"
    "selected_actors (object_manager ?w1) = selected # rest"
    using scale_drags_keep [of ?w0 earlier] scale_start_records [OF assms, of start prop_pick]
    by simp_all
  show "Scale (objects (object_manager (foldl handle_scale_drag ?w0 (earlier @ [mouse_pos]))) selected)
          = new_scale (Some axis) (Scale (objects (object_manager w) selected))
              (scale_factor start mouse_pos)"
    using scale_drag_object [OF keep(1) keep(5), of mouse_pos] by (simp add: keep)
  show "scale_factor start mouse_pos = 1 + of_int (fst mouse_pos - fst start) * (1 / 100)"
    by (simp add: scale_factor_def)
  show "new_scale (Some ''x'') (s0, s1, s2) f
        = (py_max (1 / 10) (s0 * f), py_max (1 / 10) s1, py_max (1 / 10) s2)"
    by (simp add: new_scale_def)
  show "new_scale (Some ''y'') (s0, s1, s2) f
        = (py_max (1 / 10) s0, py_max (1 / 10) (s1 * f), py_max (1 / 10) s2)"
    by (simp add: new_scale_def)
  show "new_scale (Some ''z'') (s0, s1, s2) f
        = (py_max (1 / 10) s0, py_max (1 / 10) s1, py_max (1 / 10) (s2 * f))"
    by (simp add: new_scale_def)
  show "new_scale (Some ''uniform'') (s0, s1, s2) f
        = (py_max (1 / 10) (s0 * f), py_max (1 / 10) (s1 * f), py_max (1 / 10) (s2 * f))"
    by (simp add: new_scale_def)
  show "handle_scale_drag (handle_scale_drag w' mouse_pos) mouse_pos = handle_scale_drag w' mouse_pos"
    by (cases "selected_actors (object_manager w')")
       (auto simp add: handle_scale_drag_def Let_def split: option.splits)
qed

lemma scale_tool_widget_state:
  "fst (renderer_GetSize scale_tool_widget) \<noteq> 0"
  "snd (renderer_GetSize scale_tool_widget) \<noteq> 0"
  "get_axis_at_position (scale_gizmo (object_manager scale_tool_widget)) (Some ''x'') = Some ''x''"
  "selected_actors (object_manager scale_tool_widget) = [10]"
  "Scale (objects (object_manager scale_tool_widget) 10) = (1, 1, 1)"
  by (simp_all add: scale_tool_widget_def new_VTKWidget_def two_object_scene_def
        get_axis_at_position_def new_ScaleGizmo_def new_actor_def)

text \<open>A drag on the X handle begun at pixel \<open>(0, 0)\<close>, passing over \<open>(50, 7)\<close> and now
  at \<open>(100, 0)\<close>: the factor is 2 and the scale \<open>(2, 1, 1)\<close>, not \<open>(3, 1, 1)\<close>.\<close>

theorem scale_drag_from_start_witness:
  "fst (renderer_GetSize scale_tool_widget) \<noteq> 0 \<and> snd (renderer_GetSize scale_tool_widget) \<noteq> 0
   \<and> get_axis_at_position (scale_gizmo (object_manager scale_tool_widget)) (Some ''x'') = Some ''x''
   \<and> selected_actors (object_manager scale_tool_widget) = [10]
   \<and> Scale (objects (object_manager
        (foldl handle_scale_drag (handle_scale_start scale_tool_widget (0, 0) (Some ''x'') None)
           [(50, 7), (100, 0)])) 10) = (2, 1, 1)"
proof -
  have ne: "''x'' \<noteq> []" by simp
  have f: "scale_factor (0, 0) (100, 0) = 2" by (simp add: scale_factor_def)
  show ?thesis
    using scale_tool_widget_state f
      scale_drag_from_start [OF scale_tool_widget_state(1) scale_tool_widget_state(2)
        scale_tool_widget_state(3) ne scale_tool_widget_state(4),
        of "(0, 0)" None "[(50, 7)]" "(100, 0)" 1 1 1 2]
    by (simp add: py_max_def)
qed

text \<open>
  Against C6 as the specification words it, where the floor applies: with scale \<open>(1, 1, 1)\<close>
  recorded at drag start and the pointer 200 pixels to the left, the factor is \<open>-1\<close>,
  and the X component is set to 0.1, not to \<open>1 \<times> (-1)\<close>.
\<close>

theorem scale_drag_product_counterexample:
  "is_scaling scaling_widget
   \<and> scale_axis scaling_widget = Some ''x''
   \<and> original_scale scaling_widget = (1, 1, 1)
   \<and> scale_factor (scale_start_point scaling_widget) (- 200, 0) = - 1
   \<and> Scale (objects (object_manager (handle_scale_drag scaling_widget (- 200, 0))) 10)
       = (1 / 10, 1, 1)
   \<and> fst (Scale (objects (object_manager (handle_scale_drag scaling_widget (- 200, 0))) 10))
       \<noteq> fst (original_scale scaling_widget)
           * scale_factor (scale_start_point scaling_widget) (- 200, 0)"
proof -
  have f: "scale_factor (scale_start_point scaling_widget) (- 200, 0) = - 1"
    by (simp add: scaling_widget_state scale_factor_def)
  have s: "Scale (objects (object_manager (handle_scale_drag scaling_widget (- 200, 0))) 10)
             = (1 / 10, 1, 1)"
    using scaling_widget_state f
    by (simp add: scale_drag_object [of scaling_widget 10 "[]"] new_scale_def py_max_def)
  show ?thesis using scaling_widget_state f s by simp
qed

section \<open>Rotate drags\<close>

text \<open>
  C9. A rotate-drag step reads the object's Euler angles back from VTK
  (\<^verbatim>\<open>GetOrientation\<close>), adds half a degree per pixel to the component of the dragged
  ring (the vertical pixel delta for X, the horizontal one for Y and Z), sets that
  orientation on the selected object and, in the same step, sets the same orientation
  and the object's position on its outline. After the step, outline and object have
  been given the same orientation, read back the same Euler angles, and have the same
  position. The step keeps the drag going, so this holds after every step of a drag.
\<close>

theorem rotate_drag_outline_follows:
  assumes "is_rotating_object w"
    and "selected_actors (object_manager w) = selected # rest"
    and "outline_actors (object_manager w) selected = Some out"
  shows "(\<exists>out'. outline_actors (object_manager (handle_rotate_drag w mouse_pos)) selected = Some out'
            \<and> Orientation out' = Orientation (objects (object_manager (handle_rotate_drag w mouse_pos)) selected)
            \<and> euler_readback (object_manager (handle_rotate_drag w mouse_pos)) (Orientation out')
                = GetOrientation (object_manager (handle_rotate_drag w mouse_pos)) selected
            \<and> Position out' = Position (objects (object_manager (handle_rotate_drag w mouse_pos)) selected))
    \<and> Orientation (objects (object_manager (handle_rotate_drag w mouse_pos)) selected)
        = (case GetOrientation (object_manager w) selected of (c0, c1, c2) \<Rightarrow>
           case rotation_delta (rotate_axis w)
                  (fst mouse_pos - fst (rotate_start_point w),
                   snd mouse_pos - snd (rotate_start_point w)) of (r0, r1, r2) \<Rightarrow>
             (c0 + r0, c1 + r1, c2 + r2))
    \<and> Position (objects (object_manager (handle_rotate_drag w mouse_pos)) selected)
        = Position (objects (object_manager w) selected)
    \<and> rotation_delta (Some ''x'') (dx, dy) = (of_int dy * (1 / 2), 0, 0)
    \<and> rotation_delta (Some ''y'') (dx, dy) = (0, of_int dx * (1 / 2), 0)
    \<and> rotation_delta (Some ''z'') (dx, dy) = (0, 0, of_int dx * (1 / 2))
    \<and> rotate_start_point (handle_rotate_drag w mouse_pos) = mouse_pos
    \<and> is_rotating_object (handle_rotate_drag w mouse_pos)
    \<and> selected_actors (object_manager (handle_rotate_drag w mouse_pos)) = selected # rest"
  using assms
  by (simp add: handle_rotate_drag_def rotation_delta_def GetOrientation_def Let_def
        split: prod.splits)

lemma rotating_widget_state:
  "is_rotating_object rotating_widget"
  "selected_actors (object_manager rotating_widget) = [10]"
  "outline_actors (object_manager rotating_widget) 10
     = Some (new_actor\<lparr>Position := (1, 2, 3), Visibility := False\<rparr>)"
  "rotate_axis rotating_widget = Some ''x''"
  "rotate_start_point rotating_widget = (0, 0)"
  "Orientation (objects (object_manager rotating_widget) 10) = (100, 0, 0)"
  "GetOrientation (object_manager rotating_widget) 10 = (80, - 180, 180)"
  by (simp_all add: rotating_widget_def new_VTKWidget_def two_object_scene_def new_actor_def
        GetOrientation_def)

text \<open>Object 10 was last set to \<open>(100, 0, 0)\<close>, which VTK reads back as
  \<open>(80, -180, 180)\<close>. On the X ring, a drag from \<open>(0, 0)\<close> to \<open>(3, 10)\<close> sets the
  object, and its outline with it, to \<open>(85, -180, 180)\<close>.\<close>

theorem rotate_drag_outline_follows_witness:
  "is_rotating_object rotating_widget
   \<and> selected_actors (object_manager rotating_widget) = [10]
   \<and> outline_actors (object_manager rotating_widget) 10 \<noteq> None
   \<and> GetOrientation (object_manager rotating_widget) 10 = (80, - 180, 180)
   \<and> Orientation (objects (object_manager (handle_rotate_drag rotating_widget (3, 10))) 10)
       = (85, - 180, 180)
   \<and> map_option Orientation (outline_actors (object_manager (handle_rotate_drag rotating_widget (3, 10))) 10)
       = Some (85, - 180, 180)"
  using rotating_widget_state
    rotate_drag_outline_follows [OF rotating_widget_state(1) rotating_widget_state(2)
      rotating_widget_state(3), of "(3, 10)" 3 10]
  by auto

section \<open>Selection\<close>

lemma outline_visible_iff:
  "outline_visible m a \<longleftrightarrow> map_option Visibility (outline_actors m a) = Some True"
  by (simp add: outline_visible_def split: option.splits)

lemma update_gizmo_selected [simp]:
  "selected_actors (update_gizmo_for_selection m) = selected_actors m"
  by (simp add: update_gizmo_for_selection_def Let_def split: list.splits prod.splits)

lemma update_gizmo_outlines [simp]:
  "outline_actors (update_gizmo_for_selection m) = outline_actors m"
  by (simp add: update_gizmo_for_selection_def Let_def split: list.splits prod.splits)

lemma outline_set_visibility_selected [simp]:
  "selected_actors (outline_set_visibility m a v) = selected_actors m"
  by (simp add: outline_set_visibility_def split: option.splits)

lemma outline_set_visibility_outlines:
  "outline_actors (outline_set_visibility m a v) b =
     (if b = a then map_option (\<lambda>out. out\<lparr>Visibility := v\<rparr>) (outline_actors m a)
      else outline_actors m b)"
  by (simp add: outline_set_visibility_def split: option.splits)

lemma update_outline_position_selected [simp]:
  "selected_actors (update_outline_position m a) = selected_actors m"
  by (simp add: update_outline_position_def split: option.splits)

lemma update_outline_position_visible:
  "map_option Visibility (outline_actors (update_outline_position m a) b)
     = map_option Visibility (outline_actors m b)"
  by (simp add: update_outline_position_def split: option.splits)

lemma hide_outlines_fold:
  "outline_actors (foldl (\<lambda>acc actor. if actor \<in> dom (outline_actors acc)
                                    then outline_set_visibility acc actor False else acc) m xs) b
     = (if b \<in> set xs then map_option (\<lambda>out. out\<lparr>Visibility := False\<rparr>) (outline_actors m b)
        else outline_actors m b)"
proof (induction xs arbitrary: m)
  case Nil
  show ?case by simp
next
  case (Cons x xs)
  show ?case
    by (auto simp add: Cons.IH outline_set_visibility_outlines option.map_comp comp_def
             split: option.splits)
qed

lemma deselect_all_selected [simp]: "selected_actors (deselect_all m) = []"
  by (simp add: deselect_all_def Let_def split: prod.splits)

lemma deselect_all_outlines:
  "outline_actors (deselect_all m) b
     = (if b \<in> set (selected_actors m)
        then map_option (\<lambda>out. out\<lparr>Visibility := False\<rparr>) (outline_actors m b)
        else outline_actors m b)"
  by (simp add: deselect_all_def Let_def hide_outlines_fold split: prod.splits)

lemma deselect_object_selected:
  "selected_actors (deselect_object m a) = remove1 a (selected_actors m)"
  by (simp add: deselect_object_def Let_def remove1_idem)

lemma deselect_object_hides: "\<not> outline_visible (deselect_object m a) a"
  by (auto simp add: deselect_object_def Let_def outline_visible_def outline_set_visibility_def
      split: option.splits)

lemma select_single_selected: "selected_actors (select_object m a False) = [a]"
  by (simp add: select_object_def Let_def)

lemma select_single_outlines:
  "map_option Visibility (outline_actors (select_object m a False) b)
     = (if b = a then map_option (\<lambda>out. True) (outline_actors m a)
        else if b \<in> set (selected_actors m) then map_option (\<lambda>out. False) (outline_actors m b)
        else map_option Visibility (outline_actors m b))"
  by (auto simp add: select_object_def Let_def update_outline_position_visible
        outline_set_visibility_outlines deselect_all_outlines option.map_comp comp_def dom_def
      split: option.splits)

text \<open>
  C8. \<^verbatim>\<open>select\<close> with \<open>multi = false\<close> clears the selection first: after
  \<^verbatim>\<open>select(A)\<close>, \<^verbatim>\<open>select(B)\<close> the selection is \<open>[B]\<close>, the outline of \<open>A\<close>
  (for \<open>A \<noteq> B\<close>) is hidden and the outline of \<open>B\<close> (when \<open>B\<close> has one) is visible.
  With \<open>multi = true\<close> it toggles: an object already selected is taken out of the
  selection and its outline hidden, an object not yet selected is appended and its
  outline shown.
\<close>

theorem select_object_single_and_toggle:
  "selected_actors (select_object (select_object m A False) B False) = [B]
   \<and> (A \<noteq> B \<longrightarrow> \<not> outline_visible (select_object (select_object m A False) B False) A)
   \<and> (B \<in> dom (outline_actors m) \<longrightarrow>
        outline_visible (select_object (select_object m A False) B False) B)
   \<and> (actor \<in> set (selected_actors m) \<longrightarrow>
        selected_actors (select_object m actor True) = remove1 actor (selected_actors m)
        \<and> \<not> outline_visible (select_object m actor True) actor
        \<and> (distinct (selected_actors m) \<longrightarrow>
             actor \<notin> set (selected_actors (select_object m actor True))))
   \<and> (actor \<notin> set (selected_actors m) \<longrightarrow>
        selected_actors (select_object m actor True) = selected_actors m @ [actor]
        \<and> (actor \<in> dom (outline_actors m) \<longrightarrow>
             outline_visible (select_object m actor True) actor))"
proof (intro conjI impI)
  let ?m1 = "select_object m A False"
  let ?m2 = "select_object ?m1 B False"
  show "selected_actors ?m2 = [B]" by (rule select_single_selected)
  show "\<not> outline_visible ?m2 A" if "A \<noteq> B"
  proof -
    have "map_option Visibility (outline_actors ?m2 A)
            = map_option (\<lambda>out. False) (outline_actors ?m1 A)"
      using that by (simp add: select_single_outlines [of ?m1 B A] select_single_selected)
    then show ?thesis by (cases "outline_actors ?m1 A") (auto simp add: outline_visible_iff)
  qed
  show "outline_visible ?m2 B" if "B \<in> dom (outline_actors m)"
  proof -
    have "map_option Visibility (outline_actors ?m1 B) \<noteq> None"
      using that by (auto simp add: select_single_outlines [of m A B])
    then have "outline_actors ?m1 B \<noteq> None" by simp
    moreover have "map_option Visibility (outline_actors ?m2 B)
                     = map_option (\<lambda>out. True) (outline_actors ?m1 B)"
      by (simp add: select_single_outlines [of ?m1 B B])
    ultimately show ?thesis by (cases "outline_actors ?m1 B") (auto simp add: outline_visible_iff)
  qed
next
  assume sel: "actor \<in> set (selected_actors m)"
  then have eq: "select_object m actor True = update_gizmo_for_selection (deselect_object m actor)"
    by (simp add: select_object_def)
  show "selected_actors (select_object m actor True) = remove1 actor (selected_actors m)"
    by (simp add: eq deselect_object_selected)
  show "\<not> outline_visible (select_object m actor True) actor"
    using deselect_object_hides [of m actor] by (simp add: eq outline_visible_def)
  show "actor \<notin> set (selected_actors (select_object m actor True))"
    if "distinct (selected_actors m)"
    using that by (simp add: eq deselect_object_selected)
next
  assume nsel: "actor \<notin> set (selected_actors m)"
  show "selected_actors (select_object m actor True) = selected_actors m @ [actor]"
    using nsel by (simp add: select_object_def Let_def)
  show "outline_visible (select_object m actor True) actor" if "actor \<in> dom (outline_actors m)"
    using nsel that
    by (auto simp add: select_object_def Let_def outline_visible_def update_outline_position_def
        outline_set_visibility_def split: option.splits)
qed

text \<open>In the two-object scene: selecting 10 and then 20 leaves \<open>[20]\<close> selected, the
  outline of 10 hidden and that of 20 visible; selecting 10 and then 20 with Shift gives
  \<open>[10, 20]\<close>, and 20 with Shift once more gives \<open>[10]\<close>.\<close>

theorem select_object_single_and_toggle_witness:
  "(10::nat) \<noteq> 20
   \<and> 20 \<in> dom (outline_actors two_object_scene)
   \<and> selected_actors (select_object (select_object two_object_scene 10 False) 20 False) = [20]
   \<and> \<not> outline_visible (select_object (select_object two_object_scene 10 False) 20 False) 10
   \<and> outline_visible (select_object (select_object two_object_scene 10 False) 20 False) 20
   \<and> selected_actors (select_object (select_object two_object_scene 10 False) 20 True) = [10, 20]
   \<and> selected_actors (select_object (select_object (select_object two_object_scene 10 False)
                                         20 True) 20 True) = [10]"
proof -
  let ?m1 = "select_object two_object_scene 10 False"
  let ?m2 = "select_object ?m1 20 True"
  have d: "20 \<in> dom (outline_actors two_object_scene)"
    by (simp add: two_object_scene_def)
  have s1: "selected_actors ?m1 = [10]" by (rule select_single_selected)
  have s2: "selected_actors ?m2 = [10, 20]"
    using select_object_single_and_toggle [of ?m1 10 20 20] s1 by simp
  have s3: "selected_actors (select_object ?m2 20 True) = [10]"
    using select_object_single_and_toggle [of ?m2 10 20 20] s2 by simp
  show ?thesis
    using select_object_single_and_toggle [of two_object_scene 10 20 20] d s2 s3 by simp
qed

section \<open>Objects that are not registered\<close>

lemma update_outline_position_raising_returns:
  "update_outline_position_raising m a = Inr (update_outline_position m a)"
  by (auto simp add: update_outline_position_raising_def update_outline_position_def
        dict_getitem_def dom_def split: option.splits)

lemma deselect_object_raising_returns:
  "deselect_object_raising m a = Inr (deselect_object m a)"
  by (auto simp add: deselect_object_raising_def deselect_object_def list_remove_def
        dict_getitem_def outline_set_visibility_def Let_def dom_def split: option.splits)

lemma sync_light_for_actor_returns: "sync_light_for_actor lm s a \<noteq> Inl e"
  by (auto simp add: sync_light_for_actor_def dict_getitem_def dom_def split: option.splits)

lemma move_object_result:
  "\<exists>m'. move_object m a dx dy dz = Inr m'
     \<and> actors m' = actors m
     \<and> selected_actors m' = selected_actors m
     \<and> move_gizmo m' = move_gizmo m
     \<and> rotate_gizmo m' = rotate_gizmo m
     \<and> scale_gizmo m' = scale_gizmo m
     \<and> active_gizmo m' = active_gizmo m
     \<and> (\<forall>b. b \<noteq> a \<longrightarrow> objects m' b = objects m b)
     \<and> Position (objects m' a)
         = (case Position (objects m a) of (c0, c1, c2) \<Rightarrow> (c0 + dx, c1 + dy, c2 + dz))
     \<and> outline_actors m'
         = (case outline_actors m a of
              None \<Rightarrow> outline_actors m
            | Some out \<Rightarrow> (outline_actors m)(a \<mapsto>
                out\<lparr>Position := (case Position (objects m a) of (c0, c1, c2) \<Rightarrow>
                                    (c0 + dx, c1 + dy, c2 + dz)),
                    Orientation := GetOrientation m a\<rparr>))"
proof -
  obtain c0 c1 c2 where P: "Position (objects m a) = (c0, c1, c2)"
    by (cases "Position (objects m a)") auto
  show ?thesis
    by (cases "light_manager m")
       (auto simp add: move_object_def update_outline_position_raising_returns
          update_outline_position_def GetOrientation_def P Let_def sync_light_for_actor_returns
          split: option.splits sum.splits)
qed

lemma remove1_same_iff: "remove1 a xs = xs \<longleftrightarrow> a \<notin> set xs"
proof
  assume eq: "remove1 a xs = xs"
  show "a \<notin> set xs"
  proof
    assume "a \<in> set xs"
    then have "length (remove1 a xs) < length xs"
      by (simp add: length_remove1) (cases xs, auto)
    then show False using eq by simp
  qed
next
  assume "a \<notin> set xs"
  then show "remove1 a xs = xs" by (rule remove1_idem)
qed

lemma deselect_object_same_iff:
  "deselect_object m a = m
     \<longleftrightarrow> a \<notin> set (selected_actors m)
         \<and> (\<forall>out. outline_actors m a = Some out \<longrightarrow> \<not> Visibility out)"
proof
  assume eq: "deselect_object m a = m"
  have "selected_actors (deselect_object m a) = remove1 a (selected_actors m)"
    by (simp add: deselect_object_def Let_def outline_set_visibility_def remove1_idem
          split: option.splits)
  then have "remove1 a (selected_actors m) = selected_actors m" by (simp only: eq)
  then have ns: "a \<notin> set (selected_actors m)" by (rule iffD1 [OF remove1_same_iff])
  have vis: "\<forall>out. outline_actors m a = Some out \<longrightarrow> \<not> Visibility out"
  proof (intro allI impI)
    fix out assume o: "outline_actors m a = Some out"
    have "outline_actors (deselect_object m a) a = Some (out\<lparr>Visibility := False\<rparr>)"
      using ns o by (simp add: deselect_object_def Let_def outline_set_visibility_def dom_def)
    then have "out\<lparr>Visibility := False\<rparr> = out" using eq o by simp
    then have "Visibility (out\<lparr>Visibility := False\<rparr>) = Visibility out" by simp
    then show "\<not> Visibility out" by simp
  qed
  show "a \<notin> set (selected_actors m)
          \<and> (\<forall>out. outline_actors m a = Some out \<longrightarrow> \<not> Visibility out)"
    using ns vis by simp
next
  assume h: "a \<notin> set (selected_actors m)
          \<and> (\<forall>out. outline_actors m a = Some out \<longrightarrow> \<not> Visibility out)"
  show "deselect_object m a = m"
  proof (cases "outline_actors m a")
    case None
    then show ?thesis using h by (simp add: deselect_object_def Let_def dom_def)
  next
    case (Some out)
    then have "\<not> Visibility out" using h by simp
    then have "out\<lparr>Visibility := False\<rparr> = out" by simp
    then have "(outline_actors m)(a \<mapsto> out\<lparr>Visibility := False\<rparr>) = outline_actors m"
      using Some by (simp add: map_upd_triv)
    then show ?thesis
      using h Some by (simp add: deselect_object_def Let_def dom_def outline_set_visibility_def)
  qed
qed

lemma deselect_object_keeps:
  "actors (deselect_object m a) = actors m"
  "objects (deselect_object m a) = objects m"
  "b \<noteq> a \<Longrightarrow> outline_actors (deselect_object m a) b = outline_actors m b"
  "selected_actors (deselect_object m a) = remove1 a (selected_actors m)"
  by (simp_all add: deselect_object_def Let_def outline_set_visibility_def remove1_idem
        split: option.splits)

text \<open>
  C3 (as the code has it). On an object that is not in the actor list, \<^verbatim>\<open>move\<close> and
  \<^verbatim>\<open>deselect\<close> raise no exception, but neither consults the actor list, and neither
  is a no-op in general. \<^verbatim>\<open>move\<close> leaves the actor list, the selection, the gizmos,
  the active tool, every other object and every other outline unchanged; it adds the
  delta to the position of the object it was given and, if that object has an outline,
  moves the outline with it. \<^verbatim>\<open>deselect\<close> leaves the actor list, the objects and
  every other outline unchanged; it takes the object out of the selection and hides its
  outline, and changes nothing exactly when the object is not selected and has no
  visible outline.
\<close>

theorem move_unregistered_object:
  assumes "actor \<notin> set (actors m)"
  shows "(\<exists>m'. move_object m actor dx dy dz = Inr m'
            \<and> actors m' = actors m
            \<and> selected_actors m' = selected_actors m
            \<and> move_gizmo m' = move_gizmo m
            \<and> rotate_gizmo m' = rotate_gizmo m
            \<and> scale_gizmo m' = scale_gizmo m
            \<and> active_gizmo m' = active_gizmo m
            \<and> (\<forall>b. b \<noteq> actor \<longrightarrow> objects m' b = objects m b)
            \<and> (\<forall>b. b \<noteq> actor \<longrightarrow> outline_actors m' b = outline_actors m b)
            \<and> Position (objects m' actor)
                = (case Position (objects m actor) of
                     (c0, c1, c2) \<Rightarrow> (c0 + dx, c1 + dy, c2 + dz))
            \<and> outline_actors m' actor
                = map_option (\<lambda>out. out\<lparr>Position := Position (objects m' actor),
                                         Orientation := GetOrientation m actor\<rparr>)
                    (outline_actors m actor))
    \<and> deselect_object_raising m actor = Inr (deselect_object m actor)
    \<and> actors (deselect_object m actor) = actors m
    \<and> objects (deselect_object m actor) = objects m
    \<and> selected_actors (deselect_object m actor) = remove1 actor (selected_actors m)
    \<and> (\<forall>b. b \<noteq> actor \<longrightarrow> outline_actors (deselect_object m actor) b = outline_actors m b)
    \<and> outline_actors (deselect_object m actor) actor
         = map_option (\<lambda>out. out\<lparr>Visibility := False\<rparr>) (outline_actors m actor)
    \<and> (deselect_object m actor = m
         \<longleftrightarrow> actor \<notin> set (selected_actors m)
             \<and> (\<forall>out. outline_actors m actor = Some out \<longrightarrow> \<not> Visibility out))"
proof -
  obtain m' where mv: "move_object m actor dx dy dz = Inr m'"
    and f: "actors m' = actors m" "selected_actors m' = selected_actors m"
      "move_gizmo m' = move_gizmo m" "rotate_gizmo m' = rotate_gizmo m"
      "scale_gizmo m' = scale_gizmo m" "active_gizmo m' = active_gizmo m"
    and others: "\<forall>b. b \<noteq> actor \<longrightarrow> objects m' b = objects m b"
    and pos: "Position (objects m' actor)
         = (case Position (objects m actor) of (c0, c1, c2) \<Rightarrow> (c0 + dx, c1 + dy, c2 + dz))"
    and outl: "outline_actors m'
         = (case outline_actors m actor of
              None \<Rightarrow> outline_actors m
            | Some out \<Rightarrow> (outline_actors m)(actor \<mapsto>
                out\<lparr>Position := (case Position (objects m actor) of (c0, c1, c2) \<Rightarrow>
                                    (c0 + dx, c1 + dy, c2 + dz)),
                    Orientation := GetOrientation m actor\<rparr>))"
    using move_object_result [of m actor dx dy dz] by blast
  have o1: "\<forall>b. b \<noteq> actor \<longrightarrow> outline_actors m' b = outline_actors m b"
    by (simp add: outl split: option.splits)
  have o2: "outline_actors m' actor
                = map_option (\<lambda>out. out\<lparr>Position := Position (objects m' actor),
                                         Orientation := GetOrientation m actor\<rparr>)
                    (outline_actors m actor)"
    by (simp add: outl pos split: option.splits)
  have d: "outline_actors (deselect_object m actor) actor
         = map_option (\<lambda>out. out\<lparr>Visibility := False\<rparr>) (outline_actors m actor)"
    by (simp add: deselect_object_def Let_def outline_set_visibility_def dom_def
          split: option.splits)
  have move_part: "\<exists>m'. move_object m actor dx dy dz = Inr m'
            \<and> actors m' = actors m
            \<and> selected_actors m' = selected_actors m
            \<and> move_gizmo m' = move_gizmo m
            \<and> rotate_gizmo m' = rotate_gizmo m
            \<and> scale_gizmo m' = scale_gizmo m
            \<and> active_gizmo m' = active_gizmo m
            \<and> (\<forall>b. b \<noteq> actor \<longrightarrow> objects m' b = objects m b)
            \<and> (\<forall>b. b \<noteq> actor \<longrightarrow> outline_actors m' b = outline_actors m b)
            \<and> Position (objects m' actor)
                = (case Position (objects m actor) of
                     (c0, c1, c2) \<Rightarrow> (c0 + dx, c1 + dy, c2 + dz))
            \<and> outline_actors m' actor
                = map_option (\<lambda>out. out\<lparr>Position := Position (objects m' actor),
                                         Orientation := GetOrientation m actor\<rparr>)
                    (outline_actors m actor)"
    using mv f others o1 pos o2 by blast
  show ?thesis
    using move_part deselect_object_raising_returns [of m actor]
      deselect_object_keeps(1,2,4) [of m actor] deselect_object_keeps(3) [of _ actor m]
      d deselect_object_same_iff [of m actor]
    by blast
qed

lemma two_object_scene_registry:
  "actors two_object_scene = [10, 20]"
  "selected_actors two_object_scene = []"
  "outline_actors two_object_scene 30 = None"
  "Position (objects two_object_scene 30) = (0, 0, 0)"
  by (simp_all add: two_object_scene_def new_actor_def)

text \<open>Object 30 is not in the actor list of the two-object scene, is not selected and
  has no outline: moving it by \<open>(1, 2, 3)\<close> returns, with the actor list as it was and
  the object at \<open>(1, 2, 3)\<close>; deselecting it returns and changes nothing.\<close>

theorem move_unregistered_object_witness:
  "30 \<notin> set (actors two_object_scene)
   \<and> (\<exists>m'. move_object two_object_scene 30 1 2 3 = Inr m'
         \<and> actors m' = [10, 20]
         \<and> Position (objects m' 30) = (1, 2, 3)
         \<and> objects m' 10 = objects two_object_scene 10
         \<and> outline_actors m' 10 = outline_actors two_object_scene 10)
   \<and> deselect_object_raising two_object_scene 30 = Inr two_object_scene"
proof -
  have stale: "30 \<notin> set (actors two_object_scene)"
    by (simp add: two_object_scene_registry)
  note t = move_unregistered_object [OF stale, of 1 2 3]
  obtain m' where mv: "move_object two_object_scene 30 1 2 3 = Inr m'"
    and a: "actors m' = actors two_object_scene"
    and others: "\<forall>b. b \<noteq> 30 \<longrightarrow> objects m' b = objects two_object_scene b"
    and outl: "\<forall>b. b \<noteq> 30 \<longrightarrow> outline_actors m' b = outline_actors two_object_scene b"
    and pos: "Position (objects m' 30)
                = (case Position (objects two_object_scene 30) of
                     (c0, c1, c2) \<Rightarrow> (c0 + 1, c1 + 2, c2 + 3))"
    using t by blast
  have same: "deselect_object two_object_scene 30 = two_object_scene
         \<longleftrightarrow> 30 \<notin> set (selected_actors two_object_scene)
             \<and> (\<forall>out. outline_actors two_object_scene 30 = Some out \<longrightarrow> \<not> Visibility out)"
    using t by blast
  have ds: "deselect_object_raising two_object_scene 30
              = Inr (deselect_object two_object_scene 30)"
    using t by blast
  have noop: "deselect_object two_object_scene 30 = two_object_scene"
    using same by (simp add: two_object_scene_registry)
  have "actors m' = [10, 20]" using a by (simp add: two_object_scene_registry)
  moreover have "Position (objects m' 30) = (1, 2, 3)"
    using pos by (simp add: two_object_scene_registry)
  moreover have "objects m' 10 = objects two_object_scene 10" using others by simp
  moreover have "outline_actors m' 10 = outline_actors two_object_scene 10" using outl by simp
  ultimately show ?thesis using stale mv ds noop by simp
qed

lemma select_object_actors: "actors (select_object m a multi_select) = actors m"
proof -
  have g: "\<And>n. actors (update_gizmo_for_selection n) = actors n"
    by (simp add: update_gizmo_for_selection_def Let_def split: list.splits prod.splits)
  have v: "\<And>n b u. actors (outline_set_visibility n b u) = actors n"
    by (simp add: outline_set_visibility_def split: option.splits)
  have u: "\<And>n b. actors (update_outline_position n b) = actors n"
    by (simp add: update_outline_position_def split: option.splits)
  have fo: "\<And>n xs. actors (foldl (\<lambda>acc actor. if actor \<in> dom (outline_actors acc)
                                    then outline_set_visibility acc actor False else acc) n xs)
                      = actors n"
  proof -
    fix n :: ObjectManager and xs
    show "actors (foldl (\<lambda>acc actor. if actor \<in> dom (outline_actors acc)
                                    then outline_set_visibility acc actor False else acc) n xs)
                      = actors n"
      by (induction xs arbitrary: n) (simp_all add: v)
  qed
  have da: "\<And>n. actors (deselect_all n) = actors n"
    by (simp add: deselect_all_def Let_def fo split: prod.splits)
  have de: "\<And>n b. actors (deselect_object n b) = actors n"
    by (simp add: deselect_object_def Let_def v)
  show ?thesis
    by (simp add: select_object_def Let_def g v u da de)
qed

text \<open>
  Against C3 as the specification words it. Object 30 is not in the actor list of the
  two-object scene. Moving it by \<open>(1, 2, 3)\<close> takes it from \<open>(0, 0, 0)\<close> to \<open>(1, 2, 3)\<close>.
  Selecting it, which does not consult the actor list either, makes it the selection
  while it stays outside the actor list; deselecting it then empties the selection
  again, so the registry state changes.
\<close>

theorem move_unregistered_counterexample:
  "30 \<notin> set (actors two_object_scene)
   \<and> Position (objects two_object_scene 30) = (0, 0, 0)
   \<and> (\<exists>m'. move_object two_object_scene 30 1 2 3 = Inr m'
         \<and> Position (objects m' 30) = (1, 2, 3)
         \<and> objects m' 30 \<noteq> objects two_object_scene 30)
   \<and> 30 \<notin> set (actors (select_object two_object_scene 30 False))
   \<and> selected_actors (select_object two_object_scene 30 False) = [30]
   \<and> selected_actors (deselect_object (select_object two_object_scene 30 False) 30) = []
   \<and> deselect_object (select_object two_object_scene 30 False) 30
       \<noteq> select_object two_object_scene 30 False"
proof -
  obtain m' where mv: "move_object two_object_scene 30 1 2 3 = Inr m'"
    and pos: "Position (objects m' 30)
                = (case Position (objects two_object_scene 30) of
                     (c0, c1, c2) \<Rightarrow> (c0 + 1, c1 + 2, c2 + 3))"
    using move_object_result [of two_object_scene 30 1 2 3] by blast
  have p: "Position (objects m' 30) = (1, 2, 3)"
    using pos by (simp add: two_object_scene_registry)
  have "Position (objects m' 30) \<noteq> Position (objects two_object_scene 30)"
    by (simp add: p two_object_scene_registry)
  then have ne: "objects m' 30 \<noteq> objects two_object_scene 30" by auto
  have s: "selected_actors (select_object two_object_scene 30 False) = [30]"
    by (simp add: select_single_selected)
  have d: "selected_actors (deselect_object (select_object two_object_scene 30 False) 30) = []"
    by (simp add: deselect_object_keeps s)
  have "selected_actors (deselect_object (select_object two_object_scene 30 False) 30)
          \<noteq> selected_actors (select_object two_object_scene 30 False)"
    by (simp add: d s)
  then have dne: "deselect_object (select_object two_object_scene 30 False) 30
                    \<noteq> select_object two_object_scene 30 False"
    by auto
  have "\<exists>m'. move_object two_object_scene 30 1 2 3 = Inr m'
         \<and> Position (objects m' 30) = (1, 2, 3)
         \<and> objects m' 30 \<noteq> objects two_object_scene 30"
    using mv p ne by blast
  then show ?thesis
    using s d dne by (simp add: select_object_actors two_object_scene_registry)
qed

end
